theory Spec2Isabelle
  imports Complex_Main
begin

section \<open>Python values used by the video pipeline\<close>

text \<open>
  The two source files are \<^verbatim>\<open>tasks.py\<close> (the Celery task \<^verbatim>\<open>process_video\<close> with its two
  helpers) and \<^verbatim>\<open>main.py\<close> (the HTTP endpoints). They are embedded as HOL functions:
  an exception is a value of \<open>exn\<close>, a function that may raise returns \<open>exn + 'a\<close>
  (\<open>Inl\<close> the exception), the MongoDB collection and the logs of what was written and
  which external commands were run are passed explicitly.
\<close>

subsection \<open>Exceptions\<close>

text \<open>
  \<open>Exception m\<close> is \<^verbatim>\<open>Exception(m)\<close> as the source raises it, with its message.
  \<open>PyError c m\<close> is an exception of class \<open>c\<close> raised by the interpreter or a library,
  with the text \<^verbatim>\<open>str(e)\<close> gives. \<open>CalledProcessError rc cmd\<close> is what
  \<^verbatim>\<open>subprocess.run(..., check=True)\<close> raises, \<open>InvalidId s\<close> what \<^verbatim>\<open>ObjectId(s)\<close> raises,
  \<open>ValidationError fs\<close> what a pydantic model raises when the fields \<open>fs\<close> are refused,
  \<open>HTTPException code detail\<close> FastAPI's exception; the text of these four is rendered
  by the library and is a parameter of the model (\<open>lib_str\<close> below).
\<close>

datatype exn =
    Exception string
  | PyError string string
  | CalledProcessError int "string list"
  | InvalidId string
  | ValidationError "string list"
  | HTTPException nat string

subsection \<open>Floats\<close>

text \<open>
  A Python float is an IEEE binary64 value. A finite one is modelled by the rational
  number it denotes (the sign of zero is not modelled).
\<close>

datatype pyfloat = Finite rat | PosInf | NegInf | NaN

text \<open>\<^verbatim>\<open>int.bit_length\<close>, for a number that is not negative.\<close>

function bit_length :: "int \<Rightarrow> int" where
  "bit_length n = (if n \<le> 0 then 0 else 1 + bit_length (n div 2))"
  by pat_completeness auto
termination
  by (relation "measure nat") auto

definition pow2 :: "int \<Rightarrow> rat" where
  "pow2 e = (if 0 \<le> e then 2 ^ nat e else 1 / 2 ^ nat (- e))"

text \<open>The exponent \<open>k\<close> with \<open>2^k \<le> a < 2^(k+1)\<close>, for \<open>a > 0\<close>.\<close>

definition floor_log2 :: "rat \<Rightarrow> int" where
  "floor_log2 a =
     (let (p, q) = quotient_of a;
          k = bit_length p - bit_length q
      in if pow2 k \<le> a then k else k - 1)"

definition round_half_even :: "rat \<Rightarrow> int" where
  "round_half_even x =
     (let f = \<lfloor>x\<rfloor>; r = x - of_int f
      in if r < 1 / 2 then f
         else if 1 / 2 < r then f + 1
         else if even f then f else f + 1)"

text \<open>
  Rounding of an exact result to binary64, to nearest, ties to even: 53 significant
  bits, the least exponent of a unit in the last place \<open>-1074\<close> (subnormal numbers),
  overflow to an infinity from \<open>2^1024\<close> on.
\<close>

definition bin64_round :: "rat \<Rightarrow> pyfloat" where
  "bin64_round x =
     (if x = 0 then Finite 0
      else let a = \<bar>x\<bar>;
               e = max (floor_log2 a - 52) (- 1074);
               y = of_int (round_half_even (a / pow2 e)) * pow2 e
           in if pow2 1024 \<le> y then (if 0 < x then PosInf else NegInf)
              else Finite (if 0 < x then y else - y))"

text \<open>Float multiplication \<^verbatim>\<open>x * y\<close>: the exact product, rounded.\<close>

fun float_mul :: "pyfloat \<Rightarrow> pyfloat \<Rightarrow> pyfloat" where
  "float_mul (Finite x) (Finite y) = bin64_round (x * y)"
| "float_mul NaN _ = NaN"
| "float_mul _ NaN = NaN"
| "float_mul (Finite x) PosInf = (if x = 0 then NaN else if 0 < x then PosInf else NegInf)"
| "float_mul (Finite x) NegInf = (if x = 0 then NaN else if 0 < x then NegInf else PosInf)"
| "float_mul PosInf (Finite y) = (if y = 0 then NaN else if 0 < y then PosInf else NegInf)"
| "float_mul NegInf (Finite y) = (if y = 0 then NaN else if 0 < y then NegInf else PosInf)"
| "float_mul PosInf PosInf = PosInf"
| "float_mul PosInf NegInf = NegInf"
| "float_mul NegInf PosInf = NegInf"
| "float_mul NegInf NegInf = PosInf"

text \<open>The literal \<^verbatim>\<open>0.1\<close>: the binary64 number nearest to one tenth.\<close>

definition float_0_1 :: pyfloat where
  "float_0_1 = Finite (3602879701896397 / 36028797018963968)"

text \<open>The binary64 number nearest to 3725.9, the value of the literal \<^verbatim>\<open>3725.9\<close>.\<close>

definition float_3725_9 :: rat where
  "float_3725_9 = 8193340747861197 / 2199023255552"

text \<open>
  The float 1e22, which is the integer \<open>10^22\<close>, and the float 360000.0 (one hundred
  hours).
\<close>

definition float_1e22 :: rat where
  "float_1e22 = 10000000000000000000000"

definition float_360000 :: rat where
  "float_360000 = 360000"

text \<open>
  Negation, addition, subtraction and division of floats: the exact result rounded to
  binary64, with the usual results for infinities and NaN. A comparison with NaN is
  false; a float counts as true in C when it is not zero.
\<close>

fun float_neg :: "pyfloat \<Rightarrow> pyfloat" where
  "float_neg (Finite x) = Finite (- x)"
| "float_neg PosInf = NegInf"
| "float_neg NegInf = PosInf"
| "float_neg NaN = NaN"

fun float_add :: "pyfloat \<Rightarrow> pyfloat \<Rightarrow> pyfloat" where
  "float_add (Finite x) (Finite y) = bin64_round (x + y)"
| "float_add NaN _ = NaN"
| "float_add _ NaN = NaN"
| "float_add PosInf NegInf = NaN"
| "float_add NegInf PosInf = NaN"
| "float_add PosInf _ = PosInf"
| "float_add NegInf _ = NegInf"
| "float_add (Finite x) PosInf = PosInf"
| "float_add (Finite x) NegInf = NegInf"

definition float_sub :: "pyfloat \<Rightarrow> pyfloat \<Rightarrow> pyfloat" where
  "float_sub a b = float_add a (float_neg b)"

fun float_div :: "pyfloat \<Rightarrow> pyfloat \<Rightarrow> pyfloat" where
  "float_div (Finite x) (Finite y) =
     (if y = 0 then (if x = 0 then NaN else if 0 < x then PosInf else NegInf)
      else bin64_round (x / y))"
| "float_div NaN _ = NaN"
| "float_div _ NaN = NaN"
| "float_div (Finite x) PosInf = Finite 0"
| "float_div (Finite x) NegInf = Finite 0"
| "float_div PosInf (Finite y) = (if 0 \<le> y then PosInf else NegInf)"
| "float_div NegInf (Finite y) = (if 0 \<le> y then NegInf else PosInf)"
| "float_div PosInf _ = NaN"
| "float_div NegInf _ = NaN"

fun float_floor :: "pyfloat \<Rightarrow> pyfloat" where
  "float_floor (Finite x) = Finite (of_int \<lfloor>x\<rfloor>)"
| "float_floor a = a"

fun float_nonzero :: "pyfloat \<Rightarrow> bool" where
  "float_nonzero (Finite x) = (x \<noteq> 0)"
| "float_nonzero _ = True"

fun float_less :: "pyfloat \<Rightarrow> pyfloat \<Rightarrow> bool" where
  "float_less (Finite x) (Finite y) = (x < y)"
| "float_less NaN _ = False"
| "float_less _ NaN = False"
| "float_less NegInf NegInf = False"
| "float_less NegInf _ = True"
| "float_less PosInf _ = False"
| "float_less (Finite x) PosInf = True"
| "float_less (Finite x) NegInf = False"

text \<open>Truncation towards zero, and C's \<^verbatim>\<open>fmod\<close>, whose result is exact.\<close>

definition trunc :: "rat \<Rightarrow> int" where
  "trunc x = (if 0 \<le> x then \<lfloor>x\<rfloor> else \<lceil>x\<rceil>)"

fun c_fmod :: "pyfloat \<Rightarrow> pyfloat \<Rightarrow> pyfloat" where
  "c_fmod (Finite x) (Finite y) = (if y = 0 then NaN else Finite (x - y * of_int (trunc (x / y))))"
| "c_fmod (Finite x) PosInf = Finite x"
| "c_fmod (Finite x) NegInf = Finite x"
| "c_fmod _ _ = NaN"

text \<open>
  The float remainder \<^verbatim>\<open>vx % wx\<close> and floor division \<^verbatim>\<open>vx // wx\<close> as CPython computes
  them (\<^verbatim>\<open>float_rem\<close> and \<^verbatim>\<open>float_floor_div\<close> of \<^verbatim>\<open>floatobject.c\<close>), for a divisor that
  is not zero; the source divides by the literals 3600 and 60 only, and the exception for
  a zero divisor is not modelled. The remainder is \<^verbatim>\<open>fmod(vx, wx)\<close>, with \<^verbatim>\<open>wx\<close> added when
  its sign differs from the divisor's. The quotient is \<^verbatim>\<open>(vx - mod) / wx\<close> in float
  arithmetic, less one in that same case, then snapped to the nearest integral value:
  the subtraction and the division round, so a large quotient is not the exact one.
\<close>

definition py_mod :: "pyfloat \<Rightarrow> pyfloat \<Rightarrow> pyfloat" where
  "py_mod vx wx =
     (let r = c_fmod vx wx
      in if float_nonzero r
         then (if float_less wx (Finite 0) \<noteq> float_less r (Finite 0) then float_add r wx else r)
         else Finite 0)"

definition py_floordiv :: "pyfloat \<Rightarrow> pyfloat \<Rightarrow> pyfloat" where
  "py_floordiv vx wx =
     (let r = c_fmod vx wx;
          q0 = float_div (float_sub vx r) wx;
          q = (if float_nonzero r \<and> float_less wx (Finite 0) \<noteq> float_less r (Finite 0)
               then float_sub q0 (Finite 1) else q0)
      in if float_nonzero q
         then (let floordiv = float_floor q
               in if float_less (Finite (1 / 2)) (float_sub q floordiv)
                  then float_add floordiv (Finite 1) else floordiv)
         else Finite 0)"

text \<open>\<^verbatim>\<open>int(x)\<close> of a float truncates towards zero and raises for NaN and the infinities.\<close>

definition py_int :: "pyfloat \<Rightarrow> exn + int" where
  "py_int a =
     (case a of
        Finite x \<Rightarrow> Inr (trunc x)
      | NaN \<Rightarrow> Inl (PyError ''ValueError'' ''cannot convert float NaN to integer'')
      | _ \<Rightarrow> Inl (PyError ''OverflowError'' ''cannot convert float infinity to integer''))"

subsection \<open>Formatting integers\<close>

definition digit_char :: "nat \<Rightarrow> char" where
  "digit_char d = char_of (48 + d)"

fun nat_digits :: "nat \<Rightarrow> string" where
  "nat_digits n = (if n < 10 then [digit_char n] else nat_digits (n div 10) @ [digit_char (n mod 10)])"

text \<open>\<^verbatim>\<open>str(n)\<close> of an integer, and the format \<^verbatim>\<open>{n:02d}\<close>: decimal, zero-padded to
  width two, a sign counting.\<close>

definition int_str :: "int \<Rightarrow> string" where
  "int_str n = (if n < 0 then CHR ''-'' # nat_digits (nat (- n)) else nat_digits (nat n))"

definition fmt_02d :: "int \<Rightarrow> string" where
  "fmt_02d n =
     (if n < 0 then CHR ''-'' # nat_digits (nat (- n))
      else if n < 10 then CHR ''0'' # nat_digits (nat n)
      else nat_digits (nat n))"

section \<open>tasks.py\<close>

subsection \<open>The duration string of get_video_duration\<close>

text \<open>
  Lines 67 to 71 of \<^verbatim>\<open>tasks.py\<close>:
  \<^verbatim>\<open>hours = int(duration_seconds // 3600)\<close>,
  \<^verbatim>\<open>minutes = int((duration_seconds % 3600) // 60)\<close>,
  \<^verbatim>\<open>seconds = int(duration_seconds % 60)\<close>,
  \<^verbatim>\<open>duration_str = f"{hours:02d}:{minutes:02d}:{seconds:02d}"\<close>.
  The first \<^verbatim>\<open>int\<close> that raises ends the computation.
\<close>

definition hours_of :: "pyfloat \<Rightarrow> exn + int" where
  "hours_of duration_seconds = py_int (py_floordiv duration_seconds (Finite 3600))"

definition minutes_of :: "pyfloat \<Rightarrow> exn + int" where
  "minutes_of duration_seconds =
     py_int (py_floordiv (py_mod duration_seconds (Finite 3600)) (Finite 60))"

definition seconds_of :: "pyfloat \<Rightarrow> exn + int" where
  "seconds_of duration_seconds = py_int (py_mod duration_seconds (Finite 60))"

definition duration_str_of :: "pyfloat \<Rightarrow> exn + string" where
  "duration_str_of duration_seconds =
     (case hours_of duration_seconds of
        Inl e \<Rightarrow> Inl e
      | Inr hours \<Rightarrow>
          (case minutes_of duration_seconds of
             Inl e \<Rightarrow> Inl e
           | Inr minutes \<Rightarrow>
               (case seconds_of duration_seconds of
                  Inl e \<Rightarrow> Inl e
                | Inr seconds \<Rightarrow>
                    Inr (fmt_02d hours @ '':'' @ fmt_02d minutes @ '':'' @ fmt_02d seconds))))"

text \<open>
  The display string as the specification words it: the duration truncated to whole
  seconds and split by integer division by 3600, 60 and 60. \<open>hms_fixed\<close> is the fixed
  form \<^verbatim>\<open>HH:MM:SS\<close>, two digits each; \<open>hms_truncated\<close> gives the hours all their digits
  when two are not enough.
\<close>

definition two_digits :: "int \<Rightarrow> string" where
  "two_digits n = [digit_char (nat n div 10), digit_char (nat n mod 10)]"

definition hms_fixed :: "rat \<Rightarrow> string" where
  "hms_fixed d =
     (let t = trunc d
      in two_digits (t div 3600) @ '':'' @ two_digits ((t mod 3600) div 60) @ '':'' @
         two_digits (t mod 60))"

definition hms_truncated :: "rat \<Rightarrow> string" where
  "hms_truncated d =
     (let t = trunc d
      in (if t div 3600 < 100 then two_digits (t div 3600) else int_str (t div 3600)) @ '':'' @
         two_digits ((t mod 3600) div 60) @ '':'' @ two_digits (t mod 60))"

subsection \<open>What the module takes from its environment\<close>

text \<open>
  Library functions whose code is not part of the repository are parameters:
  \<open>object_id\<close> is \<^verbatim>\<open>bson.ObjectId(s)\<close> on a string, \<open>json_loads\<close> is \<^verbatim>\<open>json.loads\<close>,
  \<open>format_duration\<close> is the expression \<^verbatim>\<open>float(metadata['format']['duration'])\<close>,
  \<open>float_str\<close> is \<^verbatim>\<open>str\<close> on a float, \<open>lib_str\<close> is \<^verbatim>\<open>str\<close> on a library exception.
  \<open>thumbnail_dir\<close> is the module constant \<^verbatim>\<open>THUMBNAIL_DIR\<close>, read from the process
  environment at import.
\<close>

record ('oid, 'json) pyenv =
  object_id :: "string \<Rightarrow> exn + 'oid"
  json_loads :: "string \<Rightarrow> exn + 'json"
  format_duration :: "'json \<Rightarrow> exn + pyfloat"
  float_str :: "pyfloat \<Rightarrow> string"
  lib_str :: "exn \<Rightarrow> string"
  thumbnail_dir :: string

text \<open>\<^verbatim>\<open>str(e)\<close>.\<close>

definition exn_str :: "('oid, 'json) pyenv \<Rightarrow> exn \<Rightarrow> string" where
  "exn_str env e = (case e of Exception m \<Rightarrow> m | PyError c m \<Rightarrow> m | _ \<Rightarrow> lib_str env e)"

subsection \<open>subprocess.run\<close>

text \<open>
  What the external program did is an input of the model: either the program could
  not be started (\<open>SpawnError\<close>, for instance \<^verbatim>\<open>FileNotFoundError\<close>), or it ran and
  exited. \<^verbatim>\<open>subprocess.run(cmd, capture_output=True, text=True, check=check)\<close> raises
  \<^verbatim>\<open>CalledProcessError\<close> when \<^verbatim>\<open>check\<close> is set and the exit status is not zero, and
  returns the completed process otherwise. The trace collects every argument vector
  handed to \<^verbatim>\<open>subprocess.run\<close>, in order.
\<close>

record completed_process =
  returncode :: int
  stdout :: string
  stderr :: string

datatype run_outcome = SpawnError exn | Exited completed_process

definition subprocess_run ::
  "string list \<Rightarrow> bool \<Rightarrow> run_outcome \<Rightarrow> string list list
     \<Rightarrow> (exn + completed_process) \<times> string list list" where
  "subprocess_run cmd check outcome trace =
     (case outcome of
        SpawnError e \<Rightarrow> (Inl e, trace @ [cmd])
      | Exited p \<Rightarrow>
          if check \<and> returncode p \<noteq> 0 then (Inl (CalledProcessError (returncode p) cmd), trace @ [cmd])
          else (Inr p, trace @ [cmd]))"

subsection \<open>get_video_duration\<close>

definition ffprobe_cmd :: "string \<Rightarrow> string list" where
  "ffprobe_cmd video_path =
     [''ffprobe'', ''-v'', ''quiet'', ''-print_format'', ''json'', ''-show_format'', video_path]"

text \<open>
  Lines 61 to 73, reached with the completed process: the JSON is parsed, the duration
  is read and formatted. For a float that is not finite the formatting raises:
  \<^verbatim>\<open>inf // 3600\<close> is \<^verbatim>\<open>nan\<close>, and \<^verbatim>\<open>int(nan)\<close> is a \<^verbatim>\<open>ValueError\<close>.
\<close>

definition read_duration ::
  "('oid, 'json) pyenv \<Rightarrow> completed_process \<Rightarrow> exn + string \<times> pyfloat" where
  "read_duration env result =
     (case json_loads env (stdout result) of
        Inl e \<Rightarrow> Inl e
      | Inr metadata \<Rightarrow>
          (case format_duration env metadata of
             Inl e \<Rightarrow> Inl e
           | Inr duration_seconds \<Rightarrow>
               (case duration_str_of duration_seconds of
                  Inl e \<Rightarrow> Inl e
                | Inr duration_str \<Rightarrow> Inr (duration_str, duration_seconds))))"

text \<open>The body of the \<^verbatim>\<open>try\<close> block (lines 48 to 73).\<close>

definition get_video_duration_try ::
  "('oid, 'json) pyenv \<Rightarrow> string \<Rightarrow> run_outcome \<Rightarrow> string list list
     \<Rightarrow> (exn + string \<times> pyfloat) \<times> string list list" where
  "get_video_duration_try env video_path outcome trace =
     (case subprocess_run (ffprobe_cmd video_path) True outcome trace of
        (Inl e, trace') \<Rightarrow> (Inl e, trace')
      | (Inr result, trace') \<Rightarrow>
          if returncode result \<noteq> 0
          then (Inl (Exception (''FFprobe failed: '' @ stderr result)), trace')
          else (read_duration env result, trace'))"

text \<open>
  The two handlers (lines 75 to 80): a \<^verbatim>\<open>CalledProcessError\<close> is replaced by
  \<^verbatim>\<open>Exception(f"Failed to extract duration: {e}")\<close>, any other exception is raised
  again as it is.
\<close>

definition duration_handlers :: "('oid, 'json) pyenv \<Rightarrow> exn \<Rightarrow> exn" where
  "duration_handlers env e =
     (case e of
        CalledProcessError rc cmd \<Rightarrow> Exception (''Failed to extract duration: '' @ exn_str env e)
      | _ \<Rightarrow> e)"

definition get_video_duration ::
  "('oid, 'json) pyenv \<Rightarrow> string \<Rightarrow> run_outcome \<Rightarrow> string list list
     \<Rightarrow> (exn + string \<times> pyfloat) \<times> string list list" where
  "get_video_duration env video_path outcome trace =
     (case get_video_duration_try env video_path outcome trace of
        (Inl e, trace') \<Rightarrow> (Inl (duration_handlers env e), trace')
      | (Inr r, trace') \<Rightarrow> (Inr r, trace'))"

subsection \<open>generate_thumbnail\<close>

definition ffmpeg_cmd :: "('oid, 'json) pyenv \<Rightarrow> string \<Rightarrow> string \<Rightarrow> pyfloat \<Rightarrow> string list" where
  "ffmpeg_cmd env video_path output_path thumbnail_time =
     [''ffmpeg'', ''-i'', video_path, ''-ss'', float_str env thumbnail_time, ''-vframes'', ''1'',
      ''-vf'', ''scale=320:240'', ''-q:v'', ''2'', ''-y'', output_path]"

definition generate_thumbnail_try ::
  "('oid, 'json) pyenv \<Rightarrow> string \<Rightarrow> string \<Rightarrow> pyfloat \<Rightarrow> run_outcome \<Rightarrow> string list list
     \<Rightarrow> (exn + bool) \<times> string list list" where
  "generate_thumbnail_try env video_path output_path duration_seconds outcome trace =
     (let thumbnail_time = float_mul duration_seconds float_0_1
      in case subprocess_run (ffmpeg_cmd env video_path output_path thumbnail_time) True outcome trace of
           (Inl e, trace') \<Rightarrow> (Inl e, trace')
         | (Inr result, trace') \<Rightarrow>
             if returncode result \<noteq> 0
             then (Inl (Exception (''FFmpeg failed: '' @ stderr result)), trace')
             else (Inr True, trace'))"

text \<open>The handlers of lines 109 to 114.\<close>

definition thumbnail_handlers :: "('oid, 'json) pyenv \<Rightarrow> exn \<Rightarrow> exn" where
  "thumbnail_handlers env e =
     (case e of
        CalledProcessError rc cmd \<Rightarrow> Exception (''Failed to generate thumbnail: '' @ exn_str env e)
      | _ \<Rightarrow> e)"

definition generate_thumbnail ::
  "('oid, 'json) pyenv \<Rightarrow> string \<Rightarrow> string \<Rightarrow> pyfloat \<Rightarrow> run_outcome \<Rightarrow> string list list
     \<Rightarrow> (exn + bool) \<times> string list list" where
  "generate_thumbnail env video_path output_path duration_seconds outcome trace =
     (case generate_thumbnail_try env video_path output_path duration_seconds outcome trace of
        (Inl e, trace') \<Rightarrow> (Inl (thumbnail_handlers env e), trace')
      | (Inr r, trace') \<Rightarrow> (Inr r, trace'))"

subsection \<open>os.path on a POSIX system\<close>

text \<open>\<^verbatim>\<open>str.rfind\<close> for one character: the last index where it stands, or \<open>-1\<close>.\<close>

fun rfind_from :: "char \<Rightarrow> string \<Rightarrow> int \<Rightarrow> int \<Rightarrow> int" where
  "rfind_from c [] i found = found"
| "rfind_from c (x # xs) i found = rfind_from c xs (i + 1) (if x = c then i else found)"

definition rfind :: "char \<Rightarrow> string \<Rightarrow> int" where
  "rfind c p = rfind_from c p 0 (- 1)"

fun has_non_dot :: "string \<Rightarrow> bool" where
  "has_non_dot [] = False"
| "has_non_dot (c # cs) = (if c \<noteq> CHR ''.'' then True else has_non_dot cs)"

text \<open>
  \<^verbatim>\<open>os.path.splitext\<close>: the extension starts at the last dot, if that dot stands after
  the last slash and after a character of the file name that is not a dot.
\<close>

definition splitext :: "string \<Rightarrow> string \<times> string" where
  "splitext p =
     (let sepIndex = rfind CHR ''/'' p;
          dotIndex = rfind CHR ''.'' p
      in if dotIndex > sepIndex \<and>
            has_non_dot (take (nat (dotIndex - (sepIndex + 1))) (drop (nat (sepIndex + 1)) p))
         then (take (nat dotIndex) p, drop (nat dotIndex) p)
         else (p, []))"

text \<open>\<^verbatim>\<open>os.path.join(a, b)\<close>.\<close>

definition path_join :: "string \<Rightarrow> string \<Rightarrow> string" where
  "path_join a b =
     (if b \<noteq> [] \<and> hd b = CHR ''/'' then b
      else if a = [] \<or> last a = CHR ''/'' then a @ b
      else a @ ''/'' @ b)"

subsection \<open>The collection of video documents\<close>

text \<open>
  A document holds strings and \<^verbatim>\<open>None\<close>; the key \<^verbatim>\<open>_id\<close> is the key of the map.
  \<^verbatim>\<open>update_one({"_id": k}, {"$set": changes})\<close> sets the fields of the document with
  that key and does nothing, without an error, when there is none. The state of a worker
  holds the collection, the list of the updates it issued and the list of the commands it
  ran.
\<close>

datatype bson = BNull | BStr string

type_synonym document = "string \<Rightarrow> bson option"

record 'oid pstate =
  db :: "'oid \<Rightarrow> document option"
  writes :: "('oid \<times> (string \<times> bson) list) list"
  cmds :: "string list list"

definition update_one :: "'oid \<Rightarrow> (string \<times> bson) list \<Rightarrow> 'oid pstate \<Rightarrow> 'oid pstate" where
  "update_one k changes st =
     st\<lparr>db := (case db st k of
                 None \<Rightarrow> db st
               | Some doc \<Rightarrow> (db st)(k \<mapsto> doc ++ map_of changes)),
        writes := writes st @ [(k, changes)]\<rparr>"

subsection \<open>Celery's retry\<close>

text \<open>
  How a run of the task ends: it returns its result, or \<^verbatim>\<open>self.retry\<close> has sent the task
  again and raises \<^verbatim>\<open>Retry\<close> (with the exception, the countdown in seconds and the
  number of retries of the new delivery), or an exception leaves the task.

  \<^verbatim>\<open>Task.retry(exc=exc, countdown=countdown, max_retries=max_retries)\<close> of Celery, run
  by a worker: it computes \<^verbatim>\<open>retries = request.retries + 1\<close>, raises \<^verbatim>\<open>exc\<close> when
  \<^verbatim>\<open>retries > max_retries\<close>, and otherwise sends the task again with that number of
  retries, to run after the countdown.
\<close>

datatype task_outcome =
    Returned "(string \<times> string) list"
  | Retry exn nat nat
  | Raised exn

definition celery_retry :: "nat \<Rightarrow> exn \<Rightarrow> nat \<Rightarrow> nat \<Rightarrow> task_outcome" where
  "celery_retry request_retries exc countdown max_retries =
     (let retries = request_retries + 1
      in if retries > max_retries then Raised exc else Retry exc countdown retries)"

subsection \<open>process_video\<close>

text \<open>
  What one run of the task meets: the outcome of the \<^verbatim>\<open>ffprobe\<close> process, the outcome of
  the \<^verbatim>\<open>ffmpeg\<close> process (used only if the run gets there) and the text
  \<^verbatim>\<open>datetime.utcnow().isoformat()\<close> gives (the run reads the clock once).
\<close>

record attempt =
  probe :: run_outcome
  thumb :: run_outcome
  utcnow :: string

definition thumbnail_filename_of :: "string \<Rightarrow> string" where
  "thumbnail_filename_of stored_filename = ''thumb_'' @ fst (splitext stored_filename) @ ''.jpg''"

text \<open>The body of the \<^verbatim>\<open>try\<close> block (lines 122 to 162).\<close>

definition process_video_try ::
  "('oid, 'json) pyenv \<Rightarrow> string \<Rightarrow> string \<Rightarrow> string \<Rightarrow> attempt \<Rightarrow> 'oid pstate
     \<Rightarrow> (exn + (string \<times> string) list) \<times> 'oid pstate" where
  "process_video_try env video_id video_path stored_filename a st =
     (case object_id env video_id of
        Inl e \<Rightarrow> (Inl e, st)
      | Inr k \<Rightarrow>
          let st1 = update_one k [(''status'', BStr ''processing'')] st;
              (r, trace1) = get_video_duration env video_path (probe a) (cmds st1);
              st2 = st1\<lparr>cmds := trace1\<rparr>
          in case r of
               Inl e \<Rightarrow> (Inl e, st2)
             | Inr (duration_str, duration_seconds) \<Rightarrow>
                 let thumbnail_filename = thumbnail_filename_of stored_filename;
                     thumbnail_path = path_join (thumbnail_dir env) thumbnail_filename;
                     (g, trace2) = generate_thumbnail env video_path thumbnail_path
                                   duration_seconds (thumb a) (cmds st2);
                     st3 = st2\<lparr>cmds := trace2\<rparr>
                 in case g of
                      Inl e \<Rightarrow> (Inl e, st3)
                    | Inr _ \<Rightarrow>
                        let update_data =
                              [(''status'', BStr ''done''),
                               (''duration'', BStr duration_str),
                               (''thumbnail_filename'', BStr thumbnail_filename),
                               (''processed_time'', BStr (utcnow a))]
                        in case object_id env video_id of
                             Inl e \<Rightarrow> (Inl e, st3)
                           | Inr k' \<Rightarrow>
                               (Inr [(''video_id'', video_id),
                                     (''status'', ''done''),
                                     (''duration'', duration_str),
                                     (''thumbnail_filename'', thumbnail_filename)],
                                update_one k' update_data st3))"

text \<open>
  The task: the \<^verbatim>\<open>try\<close> block and the handler of lines 164 to 178. \<open>request_retries\<close>
  is \<^verbatim>\<open>self.request.retries\<close>. An exception raised inside the handler (by
  \<^verbatim>\<open>ObjectId(video_id)\<close>) leaves the task before the update and before \<^verbatim>\<open>self.retry\<close>.
\<close>

definition process_video ::
  "('oid, 'json) pyenv \<Rightarrow> nat \<Rightarrow> string \<Rightarrow> string \<Rightarrow> string \<Rightarrow> attempt \<Rightarrow> 'oid pstate
     \<Rightarrow> task_outcome \<times> 'oid pstate" where
  "process_video env request_retries video_id video_path stored_filename a st =
     (case process_video_try env video_id video_path stored_filename a st of
        (Inr res, st') \<Rightarrow> (Returned res, st')
      | (Inl e, st') \<Rightarrow>
          (case object_id env video_id of
             Inl e2 \<Rightarrow> (Raised e2, st')
           | Inr k \<Rightarrow>
               (celery_retry request_retries e 60 3,
                update_one k [(''status'', BStr ''failed''),
                              (''error_message'', BStr (exn_str env e)),
                              (''processed_time'', BStr (utcnow a))] st')))"

text \<open>
  The deliveries of one job by the worker: the task runs, and runs again with the
  retries \<^verbatim>\<open>self.retry\<close> set whenever a run ends with \<^verbatim>\<open>Retry\<close>. The list gives what
  each run meets; the result lists, for each run made, how it ended and the state
  after it.
\<close>

fun run_job ::
  "('oid, 'json) pyenv \<Rightarrow> string \<Rightarrow> string \<Rightarrow> string \<Rightarrow> nat \<Rightarrow> attempt list \<Rightarrow> 'oid pstate
     \<Rightarrow> (task_outcome \<times> 'oid pstate) list" where
  "run_job env video_id video_path stored_filename request_retries [] st = []"
| "run_job env video_id video_path stored_filename request_retries (a # as) st =
     (let (out, st') = process_video env request_retries video_id video_path stored_filename a st
      in (out, st') #
         (case out of
            Retry exc countdown retries \<Rightarrow>
              run_job env video_id video_path stored_filename retries as st'
          | _ \<Rightarrow> []))"

section \<open>main.py\<close>

text \<open>
  The state the endpoints see: the collection, and the messages
  \<^verbatim>\<open>process_video.delay\<close> has put on the broker's queue (the arguments of the task).
  \<^verbatim>\<open>find_one({"_id": k})\<close> reads the collection.
\<close>

record 'oid app_state =
  videos_collection :: "'oid \<Rightarrow> document option"
  task_queue :: "(string \<times> string \<times> string) list"

definition find_one :: "'oid \<Rightarrow> 'oid app_state \<Rightarrow> document option \<times> 'oid app_state" where
  "find_one k st = (videos_collection st k, st)"

text \<open>
  \<^verbatim>\<open>ObjectId.is_valid(oid)\<close>: false for an empty value; otherwise it builds the
  \<^verbatim>\<open>ObjectId\<close> and answers false when that raises \<^verbatim>\<open>InvalidId\<close> or \<^verbatim>\<open>TypeError\<close>.
\<close>

definition invalid_or_type_error :: "exn \<Rightarrow> bool" where
  "invalid_or_type_error e =
     (case e of InvalidId s \<Rightarrow> True | PyError c m \<Rightarrow> c = ''TypeError'' | _ \<Rightarrow> False)"

definition is_valid :: "('oid, 'json) pyenv \<Rightarrow> string \<Rightarrow> exn + bool" where
  "is_valid env oid =
     (if oid = [] then Inr False
      else case object_id env oid of
             Inr _ \<Rightarrow> Inr True
           | Inl e \<Rightarrow> if invalid_or_type_error e then Inr False else Inl e)"

text \<open>\<^verbatim>\<open>d[key]\<close> on a document: a missing key raises \<^verbatim>\<open>KeyError(key)\<close>, whose text is the
  key between single quotes.\<close>

definition getitem :: "document \<Rightarrow> string \<Rightarrow> exn + bson" where
  "getitem d key =
     (case d key of
        None \<Rightarrow> Inl (PyError ''KeyError'' ([CHR 0x27] @ key @ [CHR 0x27]))
      | Some v \<Rightarrow> Inr v)"

text \<open>The pydantic models. A field declared \<^verbatim>\<open>str\<close> refuses \<^verbatim>\<open>None\<close>.\<close>

record video_status =
  vs_id :: string
  vs_status :: string

record video_metadata =
  vm_id :: string
  vm_filename :: string
  vm_upload_time :: string
  vm_status :: string
  vm_duration :: "string option"
  vm_thumbnail_url :: "string option"

definition refused :: "(string \<times> bson) list \<Rightarrow> string list" where
  "refused fs = map fst (filter (\<lambda>(name, v). v = BNull) fs)"

definition str_of :: "bson \<Rightarrow> string" where
  "str_of v = (case v of BStr s \<Rightarrow> s | BNull \<Rightarrow> [])"

definition opt_str_of :: "bson option \<Rightarrow> string option" where
  "opt_str_of v = (case v of Some (BStr s) \<Rightarrow> Some s | _ \<Rightarrow> None)"

definition VideoStatus :: "string \<Rightarrow> bson \<Rightarrow> exn + video_status" where
  "VideoStatus i st =
     (if refused [(''status'', st)] \<noteq> [] then Inl (ValidationError (refused [(''status'', st)]))
      else Inr \<lparr>vs_id = i, vs_status = str_of st\<rparr>)"

definition VideoMetadata ::
  "string \<Rightarrow> bson \<Rightarrow> bson \<Rightarrow> bson \<Rightarrow> bson option \<Rightarrow> string option \<Rightarrow> exn + video_metadata" where
  "VideoMetadata i fname up st dur url =
     (let bad = refused [(''filename'', fname), (''upload_time'', up), (''status'', st)]
      in if bad \<noteq> [] then Inl (ValidationError bad)
         else Inr \<lparr>vm_id = i, vm_filename = str_of fname, vm_upload_time = str_of up,
                   vm_status = str_of st, vm_duration = opt_str_of dur, vm_thumbnail_url = url\<rparr>)"

text \<open>
  The two handlers every endpoint ends with: an \<^verbatim>\<open>HTTPException\<close> is raised again, any
  other exception becomes a response with status 500 and the given prefix before its text.
\<close>

definition http_handlers :: "('oid, 'json) pyenv \<Rightarrow> string \<Rightarrow> exn \<Rightarrow> exn" where
  "http_handlers env prefix e =
     (case e of
        HTTPException code detail \<Rightarrow> e
      | _ \<Rightarrow> HTTPException 500 (prefix @ exn_str env e))"

subsection \<open>get_video_status\<close>

definition get_video_status_try ::
  "('oid, 'json) pyenv \<Rightarrow> string \<Rightarrow> 'oid app_state \<Rightarrow> (exn + video_status) \<times> 'oid app_state" where
  "get_video_status_try env video_id st =
     (case is_valid env video_id of
        Inl e \<Rightarrow> (Inl e, st)
      | Inr False \<Rightarrow> (Inl (HTTPException 400 ''Invalid video ID format''), st)
      | Inr True \<Rightarrow>
          (case object_id env video_id of
             Inl e \<Rightarrow> (Inl e, st)
           | Inr k \<Rightarrow>
               (case find_one k st of
                  (None, st') \<Rightarrow> (Inl (HTTPException 404 ''Video not found''), st')
                | (Some video_doc, st') \<Rightarrow>
                    (case getitem video_doc ''status'' of
                       Inl e \<Rightarrow> (Inl e, st')
                     | Inr status \<Rightarrow> (VideoStatus video_id status, st')))))"

definition get_video_status ::
  "('oid, 'json) pyenv \<Rightarrow> string \<Rightarrow> 'oid app_state \<Rightarrow> (exn + video_status) \<times> 'oid app_state" where
  "get_video_status env video_id st =
     (case get_video_status_try env video_id st of
        (Inl e, st') \<Rightarrow> (Inl (http_handlers env ''Failed to get video status: '' e), st')
      | (Inr r, st') \<Rightarrow> (Inr r, st'))"

subsection \<open>get_video_metadata\<close>

text \<open>
  \<^verbatim>\<open>if video_doc.get("thumbnail_filename")\<close> holds when the field is there with a string
  that is not empty.
\<close>

definition thumbnail_url_of :: "document \<Rightarrow> string option" where
  "thumbnail_url_of video_doc =
     (case video_doc ''thumbnail_filename'' of
        Some (BStr f) \<Rightarrow> if f \<noteq> [] then Some (''/thumbnails/'' @ f) else None
      | _ \<Rightarrow> None)"

definition get_video_metadata_try ::
  "('oid, 'json) pyenv \<Rightarrow> string \<Rightarrow> 'oid app_state \<Rightarrow> (exn + video_metadata) \<times> 'oid app_state" where
  "get_video_metadata_try env video_id st =
     (case is_valid env video_id of
        Inl e \<Rightarrow> (Inl e, st)
      | Inr False \<Rightarrow> (Inl (HTTPException 400 ''Invalid video ID format''), st)
      | Inr True \<Rightarrow>
          (case object_id env video_id of
             Inl e \<Rightarrow> (Inl e, st)
           | Inr k \<Rightarrow>
               (case find_one k st of
                  (None, st') \<Rightarrow> (Inl (HTTPException 404 ''Video not found''), st')
                | (Some video_doc, st') \<Rightarrow>
                    (let thumbnail_url = thumbnail_url_of video_doc
                     in case getitem video_doc ''filename'' of
                          Inl e \<Rightarrow> (Inl e, st')
                        | Inr fname \<Rightarrow>
                            (case getitem video_doc ''upload_time'' of
                               Inl e \<Rightarrow> (Inl e, st')
                             | Inr up \<Rightarrow>
                                 (case getitem video_doc ''status'' of
                                    Inl e \<Rightarrow> (Inl e, st')
                                  | Inr status \<Rightarrow>
                                      (VideoMetadata video_id fname up status
                                         (video_doc ''duration'') thumbnail_url, st')))))))"

definition get_video_metadata ::
  "('oid, 'json) pyenv \<Rightarrow> string \<Rightarrow> 'oid app_state \<Rightarrow> (exn + video_metadata) \<times> 'oid app_state" where
  "get_video_metadata env video_id st =
     (case get_video_metadata_try env video_id st of
        (Inl e, st') \<Rightarrow> (Inl (http_handlers env ''Failed to get video metadata: '' e), st')
      | (Inr r, st') \<Rightarrow> (Inr r, st'))"

section \<open>A concrete environment\<close>

text \<open>
  One instance of the parameters, used to run the model on concrete inputs. An
  \<^verbatim>\<open>ObjectId\<close> is built from 24 hexadecimal digits and compares without regard to
  their case; the instance keeps the digits in lower case. The JSON of the instance is
  the text itself, and \<open>probed d\<close> reads the duration \<open>d\<close> from any text.
\<close>

definition hex_lower :: "char \<Rightarrow> char" where
  "hex_lower c =
     (if c = CHR ''A'' then CHR ''a'' else if c = CHR ''B'' then CHR ''b''
      else if c = CHR ''C'' then CHR ''c'' else if c = CHR ''D'' then CHR ''d''
      else if c = CHR ''E'' then CHR ''e'' else if c = CHR ''F'' then CHR ''f'' else c)"

definition hex24_object_id :: "string \<Rightarrow> exn + string" where
  "hex24_object_id s =
     (if length s = 24 \<and> list_all (\<lambda>c. c \<in> set ''0123456789abcdefABCDEF'') s
      then Inr (map hex_lower s) else Inl (InvalidId s))"

fun repr_items :: "string list \<Rightarrow> string" where
  "repr_items [] = []"
| "repr_items [x] = [CHR 0x27] @ x @ [CHR 0x27]"
| "repr_items (x # y # ys) = [CHR 0x27] @ x @ [CHR 0x27] @ '', '' @ repr_items (y # ys)"

definition repr_list :: "string list \<Rightarrow> string" where
  "repr_list xs = ''['' @ repr_items xs @ '']''"

definition simple_lib_str :: "exn \<Rightarrow> string" where
  "simple_lib_str e =
     (case e of
        CalledProcessError rc cmd \<Rightarrow>
          ''Command '' @ [CHR 0x27] @ repr_list cmd @ [CHR 0x27] @
          '' returned non-zero exit status '' @ int_str rc @ ''.''
      | InvalidId s \<Rightarrow> [CHR 0x27] @ s @ [CHR 0x27] @ '' is not a valid ObjectId''
      | _ \<Rightarrow> ''error'')"

definition simple_float_str :: "pyfloat \<Rightarrow> string" where
  "simple_float_str x =
     (case x of
        Finite r \<Rightarrow>
          if 0 \<le> r \<and> of_int \<lfloor>r\<rfloor> = r then nat_digits (nat \<lfloor>r\<rfloor>) @ ''.0'' else ''float''
      | PosInf \<Rightarrow> ''inf'' | NegInf \<Rightarrow> ''-inf'' | NaN \<Rightarrow> ''nan'')"

definition probed :: "pyfloat \<Rightarrow> (string, string) pyenv" where
  "probed d =
     \<lparr>object_id = hex24_object_id,
      json_loads = Inr,
      format_duration = (\<lambda>metadata. Inr d),
      float_str = simple_float_str,
      lib_str = simple_lib_str,
      thumbnail_dir = ''./thumbnails''\<rparr>"

text \<open>
  A second instance, for output that cannot be read: \<^verbatim>\<open>json.loads\<close> raises
  \<^verbatim>\<open>JSONDecodeError\<close> on the empty text, the lookup \<^verbatim>\<open>metadata['format']\<close> raises
  \<^verbatim>\<open>KeyError\<close> on the text \<^verbatim>\<open>{}\<close> (an object without members), whose text is the key in
  quotes; any other text has the duration 120.0.
\<close>

definition reading :: "(string, string) pyenv" where
  "reading =
     \<lparr>object_id = hex24_object_id,
      json_loads = (\<lambda>s. if s = []
         then Inl (PyError ''JSONDecodeError'' ''Expecting value: line 1 column 1 (char 0)'')
         else Inr s),
      format_duration = (\<lambda>metadata. if metadata = ''{}''
         then Inl (PyError ''KeyError'' ([CHR 0x27] @ ''format'' @ [CHR 0x27]))
         else Inr (Finite 120)),
      float_str = simple_float_str,
      lib_str = simple_lib_str,
      thumbnail_dir = ''./thumbnails''\<rparr>"

section \<open>The results of the two steps\<close>

text \<open>
  What a step returns or raises does not depend on the commands run before it; these
  name the result of the duration step and of the thumbnail step of a run.
\<close>

definition inspection ::
  "('oid, 'json) pyenv \<Rightarrow> string \<Rightarrow> run_outcome \<Rightarrow> exn + string \<times> pyfloat" where
  "inspection env video_path outcome = fst (get_video_duration env video_path outcome [])"

definition extraction ::
  "('oid, 'json) pyenv \<Rightarrow> string \<Rightarrow> string \<Rightarrow> pyfloat \<Rightarrow> run_outcome \<Rightarrow> exn + bool" where
  "extraction env video_path output_path duration_seconds outcome =
     fst (generate_thumbnail env video_path output_path duration_seconds outcome [])"

text \<open>The output path of the thumbnail step, and a field of the stored record.\<close>

definition thumbnail_path_of :: "('oid, 'json) pyenv \<Rightarrow> string \<Rightarrow> string" where
  "thumbnail_path_of env stored_filename =
     path_join (thumbnail_dir env) (thumbnail_filename_of stored_filename)"

definition stored_field :: "'oid pstate \<Rightarrow> 'oid \<Rightarrow> string \<Rightarrow> bson option" where
  "stored_field st k name = (case db st k of None \<Rightarrow> None | Some doc \<Rightarrow> doc name)"

text \<open>A step of the run fails with the exception \<open>e\<close>: the duration step, or the
  thumbnail step after the duration step has succeeded.\<close>

definition step_fails :: "('oid, 'json) pyenv \<Rightarrow> string \<Rightarrow> string \<Rightarrow> attempt \<Rightarrow> exn \<Rightarrow> bool" where
  "step_fails env video_path stored_filename a e =
     (case inspection env video_path (probe a) of
        Inl e' \<Rightarrow> e' = e
      | Inr (s, d) \<Rightarrow>
          extraction env video_path (thumbnail_path_of env stored_filename) d (thumb a) = Inl e)"

text \<open>The three updates the task issues.\<close>

definition processing_update :: "(string \<times> bson) list" where
  "processing_update = [(''status'', BStr ''processing'')]"

definition done_update :: "string \<Rightarrow> string \<Rightarrow> string \<Rightarrow> (string \<times> bson) list" where
  "done_update duration_str thumbnail_filename now =
     [(''status'', BStr ''done''),
      (''duration'', BStr duration_str),
      (''thumbnail_filename'', BStr thumbnail_filename),
      (''processed_time'', BStr now)]"

definition failed_update :: "string \<Rightarrow> string \<Rightarrow> (string \<times> bson) list" where
  "failed_update error_message now =
     [(''status'', BStr ''failed''),
      (''error_message'', BStr error_message),
      (''processed_time'', BStr now)]"

text \<open>The state a run leaves when its duration step fails with \<open>e\<close>.\<close>

definition after_failed_inspection ::
  "('oid, 'json) pyenv \<Rightarrow> 'oid \<Rightarrow> string \<Rightarrow> exn \<Rightarrow> attempt \<Rightarrow> 'oid pstate \<Rightarrow> 'oid pstate" where
  "after_failed_inspection env k video_path e a st =
     update_one k (failed_update (exn_str env e) (utcnow a))
       ((update_one k processing_update st)\<lparr>cmds := cmds st @ [ffprobe_cmd video_path]\<rparr>)"

text \<open>Concrete inputs: a run of the external program that exits with status 0.\<close>

definition ok_run :: run_outcome where
  "ok_run = Exited \<lparr>returncode = 0, stdout = ''{}'', stderr = []\<rparr>"

text \<open>A run that exits with status 1.\<close>

definition failed_run :: run_outcome where
  "failed_run = Exited \<lparr>returncode = 1, stdout = [], stderr = ''Invalid data found''\<rparr>"

text \<open>A run that exits with status 0 and prints nothing, and a program that is not
  installed.\<close>

definition silent_run :: run_outcome where
  "silent_run = Exited \<lparr>returncode = 0, stdout = [], stderr = []\<rparr>"

definition missing_program :: run_outcome where
  "missing_program =
     SpawnError (PyError ''FileNotFoundError''
       (''[Errno 2] No such file or directory: '' @ [CHR 0x27] @ ''ffprobe'' @ [CHR 0x27]))"

text \<open>
  Runs of the task: one where both programs succeed, one where \<^verbatim>\<open>ffprobe\<close> fails, one
  where \<^verbatim>\<open>ffmpeg\<close> fails; the text is the time the run reads.
\<close>

definition good_attempt :: "string \<Rightarrow> attempt" where
  "good_attempt now = \<lparr>probe = ok_run, thumb = ok_run, utcnow = now\<rparr>"

definition probe_fails :: "string \<Rightarrow> attempt" where
  "probe_fails now = \<lparr>probe = failed_run, thumb = ok_run, utcnow = now\<rparr>"

definition thumb_fails :: "string \<Rightarrow> attempt" where
  "thumb_fails now = \<lparr>probe = ok_run, thumb = failed_run, utcnow = now\<rparr>"

text \<open>Runs where \<^verbatim>\<open>ffprobe\<close> prints nothing, and where it is not installed.\<close>

definition probe_silent :: "string \<Rightarrow> attempt" where
  "probe_silent now = \<lparr>probe = silent_run, thumb = ok_run, utcnow = now\<rparr>"

definition probe_missing :: "string \<Rightarrow> attempt" where
  "probe_missing now = \<lparr>probe = missing_program, thumb = ok_run, utcnow = now\<rparr>"

text \<open>
  A record as \<^verbatim>\<open>upload_video\<close> inserts it, its key, a collection holding it and an
  empty collection.
\<close>

definition video_id0 :: string where
  "video_id0 = ''0123456789abcdef01234567''"

definition pending_doc :: document where
  "pending_doc =
     map_of [(''filename'', BStr ''holiday.mp4''),
             (''stored_filename'', BStr ''abc.mp4''),
             (''file_path'', BStr ''./uploads/abc.mp4''),
             (''upload_time'', BStr ''2024-01-01T00:00:00''),
             (''status'', BStr ''pending''),
             (''duration'', BNull),
             (''thumbnail_url'', BNull)]"

text \<open>The exception the duration step raises when \<^verbatim>\<open>ffprobe\<close> exits with status 1 on that
  file.\<close>

definition probe_error :: exn where
  "probe_error =
     Exception (''Failed to extract duration: '' @
       simple_lib_str (CalledProcessError 1 (ffprobe_cmd ''./uploads/abc.mp4'')))"

definition store0 :: "string pstate" where
  "store0 = \<lparr>db = [video_id0 \<mapsto> pending_doc], writes = [], cmds = []\<rparr>"

definition empty_store :: "string pstate" where
  "empty_store = \<lparr>db = Map.empty, writes = [], cmds = []\<rparr>"

text \<open>The record after a successful run, and the state of the application holding it.\<close>

definition done_doc :: document where
  "done_doc =
     pending_doc ++ map_of (done_update ''00:02:00'' ''thumb_abc.jpg'' ''2024-01-01T00:00:09'')"

definition app0 :: "string app_state" where
  "app0 =
     \<lparr>videos_collection = [video_id0 \<mapsto> done_doc],
      task_queue = [(video_id0, ''./uploads/abc.mp4'', ''abc.mp4'')]\<rparr>"

section \<open>Arithmetic of the duration string\<close>

lemma floor_div_pos:
  fixes x :: rat
  assumes n: "0 < n"
  shows "\<lfloor>x / of_int n\<rfloor> = \<lfloor>x\<rfloor> div n"
proof (rule floor_unique)
  let ?q = "\<lfloor>x\<rfloor> div n"
  have pos: "(0::rat) < of_int n" using n by simp
  have "0 \<le> \<lfloor>x\<rfloor> mod n" using n by simp
  moreover have "?q * n + \<lfloor>x\<rfloor> mod n = \<lfloor>x\<rfloor>" by simp
  ultimately have "?q * n \<le> \<lfloor>x\<rfloor>" by linarith
  then have "(of_int (?q * n) :: rat) \<le> of_int \<lfloor>x\<rfloor>" by (simp only: of_int_le_iff)
  also have "\<dots> \<le> x" by simp
  finally have "(of_int ?q :: rat) * of_int n \<le> x" by simp
  then show "of_int ?q \<le> x / of_int n"
    using pos by (simp add: pos_le_divide_eq)
  have "\<lfloor>x\<rfloor> mod n < n" using n by simp
  moreover have "?q * n + \<lfloor>x\<rfloor> mod n = \<lfloor>x\<rfloor>" by simp
  ultimately have "\<lfloor>x\<rfloor> + 1 \<le> ?q * n + n" by linarith
  then have "\<lfloor>x\<rfloor> + 1 \<le> (?q + 1) * n" by (simp add: distrib_right)
  then have "(of_int (\<lfloor>x\<rfloor> + 1) :: rat) \<le> of_int ((?q + 1) * n)" by (simp only: of_int_le_iff)
  moreover have "x < of_int (\<lfloor>x\<rfloor> + 1)" by linarith
  ultimately have "x < (of_int ?q + 1) * of_int n" by simp
  then show "x / of_int n < of_int ?q + 1"
    using pos by (simp add: pos_divide_less_eq)
qed

lemma bit_length_le: "n < 2 ^ m \<Longrightarrow> bit_length n \<le> int m"
proof (induction m arbitrary: n)
  case 0
  then have "n \<le> 0" by simp
  then show ?case by (subst bit_length.simps) simp
next
  case (Suc m)
  show ?case
  proof (cases "n \<le> 0")
    case True
    then show ?thesis by (subst bit_length.simps) simp
  next
    case False
    have "n div 2 < 2 ^ m" using Suc.prems by simp
    then have "bit_length (n div 2) \<le> int m" by (rule Suc.IH)
    then show ?thesis using False by (subst bit_length.simps) simp
  qed
qed

lemma bit_length_one: "bit_length 1 = 1"
  by (subst bit_length.simps, subst bit_length.simps) simp

lemma floor_log2_int_le:
  assumes "n < 2 ^ 53"
  shows "floor_log2 (of_int n) \<le> 52"
proof -
  have "bit_length n \<le> 53" using bit_length_le [OF assms] by simp
  then show ?thesis
    by (simp add: floor_log2_def quotient_of_int bit_length_one Let_def)
qed

lemma round_half_even_int: "round_half_even (of_int z) = z"
  by (simp add: round_half_even_def)

lemma pow2_nonpos: "e \<le> 0 \<Longrightarrow> pow2 e = 1 / 2 ^ nat (- e)"
  by (auto simp add: pow2_def)

lemma bin64_round_int:
  assumes "0 \<le> n" and "n < 2 ^ 53"
  shows "bin64_round (of_int n) = Finite (of_int n)"
proof (cases "n = 0")
  case True
  then show ?thesis by (simp add: bin64_round_def)
next
  case False
  then have pos: "0 < n" using assms(1) by simp
  define e where "e = max (floor_log2 (of_int n) - 52) (- 1074)"
  have e: "e \<le> 0" using floor_log2_int_le [OF assms(2)] by (simp add: e_def)
  define N where "N = nat (- e)"
  have p: "pow2 e = 1 / 2 ^ N" using e by (simp add: pow2_nonpos N_def)
  have q: "(of_int n :: rat) / pow2 e = of_int (n * 2 ^ N)" by (simp add: p)
  have r: "round_half_even (of_int n / pow2 e) = n * 2 ^ N"
    by (simp only: q round_half_even_int)
  have y: "(of_int (round_half_even (of_int n / pow2 e)) :: rat) * pow2 e = of_int n"
    by (simp only: r) (simp add: p)
  have "(of_int n :: rat) < 2 ^ 53" using assms(2) by (metis of_int_less_numeral_power_cancel_iff)
  also have "\<dots> < 2 ^ 1024" by simp
  finally have small: "\<not> pow2 1024 \<le> (of_int n :: rat)" by (simp add: pow2_def)
  have a: "\<bar>of_int n :: rat\<bar> = of_int n" using pos by simp
  show ?thesis
    using False pos small y
    by (simp add: bin64_round_def Let_def a e_def [symmetric])
qed

lemma fmod_nonneg:
  assumes "0 \<le> x" and "0 < n"
  shows "c_fmod (Finite x) (Finite (of_int n)) = Finite (x - of_int (n * (\<lfloor>x\<rfloor> div n)))"
    and "0 \<le> x - of_int (n * (\<lfloor>x\<rfloor> div n))"
proof -
  have pos: "(0::rat) < of_int n" using assms(2) by simp
  have "0 \<le> x / of_int n" using assms(1) pos by simp
  then have "trunc (x / of_int n) = \<lfloor>x\<rfloor> div n"
    using floor_div_pos [OF assms(2), of x] by (simp add: trunc_def)
  then show "c_fmod (Finite x) (Finite (of_int n)) = Finite (x - of_int (n * (\<lfloor>x\<rfloor> div n)))"
    using assms(2) by simp
  have "0 \<le> \<lfloor>x\<rfloor> mod n" using assms(2) by simp
  moreover have "n * (\<lfloor>x\<rfloor> div n) + \<lfloor>x\<rfloor> mod n = \<lfloor>x\<rfloor>" by simp
  ultimately have "n * (\<lfloor>x\<rfloor> div n) \<le> \<lfloor>x\<rfloor>" by linarith
  then have "(of_int (n * (\<lfloor>x\<rfloor> div n)) :: rat) \<le> of_int \<lfloor>x\<rfloor>" by (simp only: of_int_le_iff)
  also have "\<dots> \<le> x" by simp
  finally show "0 \<le> x - of_int (n * (\<lfloor>x\<rfloor> div n))" by simp
qed

lemma py_mod_exact:
  assumes "0 \<le> x" and "0 < n"
  shows "py_mod (Finite x) (Finite (of_int n)) = Finite (x - of_int (n * (\<lfloor>x\<rfloor> div n)))"
  using fmod_nonneg [OF assms] assms(2)
  by (simp add: py_mod_def Let_def)

lemma py_floordiv_exact:
  assumes "0 \<le> x" and "x < 2 ^ 53" and "0 < n"
  shows "py_floordiv (Finite x) (Finite (of_int n)) = Finite (of_int (\<lfloor>x\<rfloor> div n))"
proof -
  let ?q = "\<lfloor>x\<rfloor> div n"
  let ?r = "x - of_int (n * ?q)"
  have fl0: "0 \<le> \<lfloor>x\<rfloor>" using assms(1) by simp
  have fl53: "\<lfloor>x\<rfloor> < 2 ^ 53" using assms(2) by (simp add: floor_less_iff)
  have q0: "0 \<le> ?q" using fl0 assms(3) by (simp add: pos_imp_zdiv_nonneg_iff)
  have "0 \<le> \<lfloor>x\<rfloor> mod n" using assms(3) by simp
  moreover have "n * ?q + \<lfloor>x\<rfloor> mod n = \<lfloor>x\<rfloor>" by simp
  ultimately have nq: "n * ?q \<le> \<lfloor>x\<rfloor>" by linarith
  have nq0: "0 \<le> n * ?q" using q0 assms(3) by simp
  have nq53: "n * ?q < 2 ^ 53" using nq fl53 by linarith
  have "?q \<le> n * ?q" using q0 assms(3) by (simp add: mult_le_cancel_right1)
  then have q53: "?q < 2 ^ 53" using nq53 by linarith
  have r: "c_fmod (Finite x) (Finite (of_int n)) = Finite ?r" and r0: "0 \<le> ?r"
    using fmod_nonneg [OF assms(1,3)] by simp_all
  have sub: "float_sub (Finite x) (Finite ?r) = Finite (of_int (n * ?q))"
    using bin64_round_int [OF nq0 nq53] by (simp add: float_sub_def)
  have "(of_int (n * ?q) :: rat) / of_int n = of_int ?q" using assms(3) by simp
  then have dv: "float_div (Finite (of_int (n * ?q))) (Finite (of_int n)) = Finite (of_int ?q)"
    using bin64_round_int [OF q0 q53] assms(3) by simp
  have zero: "bin64_round 0 = Finite 0" by (simp add: bin64_round_def)
  have nz: "float_less (Finite (of_int n)) (Finite 0) = False"
    "float_less (Finite ?r) (Finite 0) = False"
    using r0 assms(3) by (simp_all add: not_less)
  show ?thesis
    unfolding py_floordiv_def Let_def r sub dv nz
    by (simp add: float_sub_def zero)
qed

lemma bin64_round_eval:
  assumes "0 < x" and "floor_log2 x = k" and "52 \<le> k"
    and "round_half_even (x / 2 ^ nat (k - 52)) = M"
    and "of_int M * 2 ^ nat (k - 52) < (2::rat) ^ 1024"
  shows "bin64_round x = Finite (of_int M * 2 ^ nat (k - 52))"
proof -
  have e: "max (floor_log2 x - 52) (- 1074) = k - 52"
    using assms(1,2,3) by simp
  have p: "pow2 (k - 52) = 2 ^ nat (k - 52)" using assms(3) by (simp add: pow2_def)
  have big: "pow2 1024 = 2 ^ 1024" by (simp add: pow2_def)
  have a: "\<bar>x\<bar> = x" using assms(1) by simp
  show ?thesis
    unfolding bin64_round_def Let_def e p big a assms(4)
    using assms(1,5) by simp
qed

lemma fmod_1e22: "c_fmod (Finite 10000000000000000000000) (Finite 3600) = Finite 2800"
  by code_simp

lemma round_1e22_minus:
  "bin64_round 9999999999999999997200 = Finite 10000000000000000000000"
proof -
  have k: "floor_log2 9999999999999999997200 = 73" by code_simp
  have m: "round_half_even (9999999999999999997200 / 2 ^ nat (73 - 52)) = 4768371582031250"
    by code_simp
  show ?thesis
    using bin64_round_eval [OF _ k _ m] by simp
qed

lemma round_1e22_quotient:
  "bin64_round (10000000000000000000000 / 3600) = Finite 2777777777777777664"
proof -
  have k: "floor_log2 (10000000000000000000000 / 3600) = 61" by code_simp
  have m: "round_half_even (10000000000000000000000 / 3600 / 2 ^ nat (61 - 52)) = 5425347222222222"
    by code_simp
  show ?thesis
    using bin64_round_eval [OF _ k _ m] by simp
qed

lemma floordiv_1e22:
  "py_floordiv (Finite 10000000000000000000000) (Finite 3600) = Finite 2777777777777777664"
proof -
  have sub: "float_sub (Finite 10000000000000000000000) (Finite 2800) = Finite 10000000000000000000000"
    using round_1e22_minus by (simp add: float_sub_def)
  have dv: "float_div (Finite 10000000000000000000000) (Finite 3600) = Finite 2777777777777777664"
    using round_1e22_quotient by simp
  have zero: "bin64_round 0 = Finite 0" by (simp add: bin64_round_def)
  show ?thesis
    unfolding py_floordiv_def Let_def fmod_1e22 sub dv
    by (simp add: float_sub_def zero)
qed

lemma digit_char_0: "digit_char 0 = CHR ''0''"
  by code_simp

lemma digit_chars:
  "digit_char 1 = CHR ''1''" "digit_char 2 = CHR ''2''" "digit_char 3 = CHR ''3''"
  "digit_char 4 = CHR ''4''" "digit_char 5 = CHR ''5''" "digit_char 6 = CHR ''6''"
  "digit_char 7 = CHR ''7''" "digit_char 8 = CHR ''8''" "digit_char 9 = CHR ''9''"
  by code_simp+

lemma fmt_02d_two_digits:
  assumes "0 \<le> n" and "n < 100"
  shows "fmt_02d n = two_digits n"
proof (cases "n < 10")
  case True
  then have "nat n div 10 = 0" "nat n mod 10 = nat n" using assms(1) by simp_all
  then show ?thesis
    using True assms(1) by (simp add: fmt_02d_def two_digits_def digit_char_0)
next
  case False
  then have d: "nat n div 10 < 10" "\<not> nat n < 10" using assms by simp_all
  have "nat_digits (nat n) = nat_digits (nat n div 10) @ [digit_char (nat n mod 10)]"
    using d(2) by (subst nat_digits.simps) simp
  also have "nat_digits (nat n div 10) = [digit_char (nat n div 10)]"
    using d(1) by (subst nat_digits.simps) simp
  finally show ?thesis
    using False assms(1) by (simp add: fmt_02d_def two_digits_def)
qed

lemma fmt_02d_int_str: "10 \<le> n \<Longrightarrow> fmt_02d n = int_str n"
  by (simp add: fmt_02d_def int_str_def)

lemma py_int_of_int: "py_int (Finite (of_int z)) = Inr z"
  by (simp add: py_int_def trunc_def)

lemma hours_of_exact:
  assumes "0 \<le> d" and "d < 2 ^ 53"
  shows "hours_of (Finite d) = Inr (\<lfloor>d\<rfloor> div 3600)"
  using py_floordiv_exact [OF assms, of 3600] py_int_of_int [of "\<lfloor>d\<rfloor> div 3600"]
  by (simp add: hours_of_def)

lemma minutes_of_exact:
  assumes "0 \<le> d" and "d < 2 ^ 53"
  shows "minutes_of (Finite d) = Inr ((\<lfloor>d\<rfloor> mod 3600) div 60)"
proof -
  let ?r = "d - of_int (3600 * (\<lfloor>d\<rfloor> div 3600))"
  have m: "py_mod (Finite d) (Finite 3600) = Finite ?r"
    using py_mod_exact [OF assms(1), of 3600] by simp
  have r0: "0 \<le> ?r" using fmod_nonneg(2) [OF assms(1), of 3600] by simp
  have "0 \<le> \<lfloor>d\<rfloor> div 3600" using assms(1) by (simp add: pos_imp_zdiv_nonneg_iff)
  then have "(0::rat) \<le> of_int (3600 * (\<lfloor>d\<rfloor> div 3600))" by simp
  then have "?r \<le> d" by linarith
  then have r53: "?r < 2 ^ 53" using assms(2) by linarith
  have "\<lfloor>?r\<rfloor> = \<lfloor>d\<rfloor> - 3600 * (\<lfloor>d\<rfloor> div 3600)" by (simp only: floor_diff_of_int)
  then have fl: "\<lfloor>?r\<rfloor> = \<lfloor>d\<rfloor> mod 3600" by (simp add: minus_mult_div_eq_mod)
  show ?thesis
    using py_floordiv_exact [OF r0 r53, of 60] py_int_of_int [of "\<lfloor>?r\<rfloor> div 60"]
    unfolding minutes_of_def m fl by simp
qed

lemma seconds_of_exact:
  assumes "0 \<le> d"
  shows "seconds_of (Finite d) = Inr (\<lfloor>d\<rfloor> mod 60)"
proof -
  let ?r = "d - of_int (60 * (\<lfloor>d\<rfloor> div 60))"
  have m: "py_mod (Finite d) (Finite 60) = Finite ?r"
    using py_mod_exact [OF assms(1), of 60] by simp
  have r0: "0 \<le> ?r" using fmod_nonneg(2) [OF assms(1), of 60] by simp
  have "\<lfloor>?r\<rfloor> = \<lfloor>d\<rfloor> - 60 * (\<lfloor>d\<rfloor> div 60)" by (simp only: floor_diff_of_int)
  then have fl: "\<lfloor>?r\<rfloor> = \<lfloor>d\<rfloor> mod 60" by (simp add: minus_mult_div_eq_mod)
  show ?thesis
    unfolding seconds_of_def m using r0 fl by (simp add: py_int_def trunc_def)
qed

lemma duration_str_of_exact:
  assumes "0 \<le> d" and "d < 2 ^ 53"
  shows "duration_str_of (Finite d) = Inr (hms_truncated d)"
proof -
  let ?t = "\<lfloor>d\<rfloor>"
  have t0: "0 \<le> ?t" using assms(1) by simp
  have h0: "0 \<le> ?t div 3600" using t0 by (simp add: pos_imp_zdiv_nonneg_iff)
  have hours: "fmt_02d (?t div 3600) =
      (if ?t div 3600 < 100 then two_digits (?t div 3600) else int_str (?t div 3600))"
    using h0 by (simp add: fmt_02d_two_digits fmt_02d_int_str)
  have "0 \<le> (?t mod 3600) div 60" by (simp add: pos_imp_zdiv_nonneg_iff)
  moreover have "(?t mod 3600) div 60 < 100"
  proof -
    have "?t mod 3600 < 3600" by simp
    then show ?thesis by simp
  qed
  ultimately have minutes: "fmt_02d ((?t mod 3600) div 60) = two_digits ((?t mod 3600) div 60)"
    by (rule fmt_02d_two_digits)
  have "0 \<le> ?t mod 60" "?t mod 60 < 100"
    by (simp_all add: less_trans [OF pos_mod_bound])
  then have seconds: "fmt_02d (?t mod 60) = two_digits (?t mod 60)"
    by (rule fmt_02d_two_digits)
  have tr: "trunc d = ?t" using assms(1) by (simp add: trunc_def)
  show ?thesis
    unfolding duration_str_of_def hours_of_exact [OF assms] minutes_of_exact [OF assms]
      seconds_of_exact [OF assms(1)] hms_truncated_def Let_def tr
    by (simp only: sum.case hours minutes seconds)
qed

lemma hms_truncated_fixed:
  assumes "0 \<le> d" and "d < 360000"
  shows "hms_truncated d = hms_fixed d"
proof -
  have "\<lfloor>d\<rfloor> < 360000" using assms(2) by (simp add: floor_less_iff)
  then have "\<lfloor>d\<rfloor> div 3600 < 100" by presburger
  then show ?thesis
    using assms(1) by (simp add: hms_truncated_def hms_fixed_def trunc_def Let_def)
qed

lemma length_hms_fixed: "length (hms_fixed d) = 8"
  by (simp add: hms_fixed_def two_digits_def Let_def)

lemma duration_1e22:
  "duration_str_of (Finite float_1e22) = Inr ''2777777777777777664:46:40''"
proof -
  have h: "hours_of (Finite float_1e22) = Inr 2777777777777777664"
    unfolding hours_of_def float_1e22_def floordiv_1e22 by (simp add: py_int_def trunc_def)
  have r: "py_mod (Finite 10000000000000000000000) (Finite 3600) = Finite 2800"
    unfolding py_mod_def Let_def fmod_1e22 by simp
  have "minutes_of (Finite 2800) = Inr ((\<lfloor>2800::rat\<rfloor> mod 3600) div 60)"
    by (rule minutes_of_exact) simp_all
  then have m0: "py_int (py_floordiv (py_mod (Finite 2800) (Finite 3600)) (Finite 60)) = Inr 46"
    by (simp add: minutes_of_def)
  have "py_mod (Finite 2800) (Finite 3600) = Finite 2800"
    using py_mod_exact [of 2800 3600] by simp
  then have m: "minutes_of (Finite float_1e22) = Inr 46"
    using m0 unfolding minutes_of_def float_1e22_def r by simp
  have s: "seconds_of (Finite float_1e22) = Inr 40"
    using seconds_of_exact [of float_1e22] by (simp add: float_1e22_def)
  have f: "fmt_02d 2777777777777777664 = ''2777777777777777664''"
    "fmt_02d 46 = ''46''" "fmt_02d 40 = ''40''"
    by (simp_all add: fmt_02d_def digit_char_0 digit_chars)
  show ?thesis
    unfolding duration_str_of_def h m s by (simp add: f)
qed

lemma hms_truncated_1e22: "hms_truncated float_1e22 = ''2777777777777777777:46:40''"
  by (simp add: hms_truncated_def float_1e22_def trunc_def two_digits_def int_str_def
      digit_char_0 digit_chars)

lemma duration_360000: "duration_str_of (Finite float_360000) = Inr ''100:00:00''"
proof -
  have "duration_str_of (Finite float_360000) = Inr (hms_truncated float_360000)"
    by (rule duration_str_of_exact) (simp_all add: float_360000_def)
  moreover have "hms_truncated float_360000 = ''100:00:00''" by code_simp
  ultimately show ?thesis by simp
qed

lemma duration_3725_9: "duration_str_of (Finite float_3725_9) = Inr ''01:02:05''"
proof -
  have "duration_str_of (Finite float_3725_9) = Inr (hms_truncated float_3725_9)"
    by (rule duration_str_of_exact) (simp_all add: float_3725_9_def)
  moreover have "hms_truncated float_3725_9 = ''01:02:05''" by code_simp
  ultimately show ?thesis by simp
qed

section \<open>The two steps\<close>

text \<open>
  Each step appends its command to the list of commands and returns a result that does
  not depend on that list; the results are spelled out by the way the program ended.
\<close>

lemma subprocess_run_cases:
  "subprocess_run cmd True outcome trace =
     (case outcome of
        SpawnError e \<Rightarrow> Inl e
      | Exited p \<Rightarrow> if returncode p \<noteq> 0 then Inl (CalledProcessError (returncode p) cmd) else Inr p,
      trace @ [cmd])"
  by (simp add: subprocess_run_def split: run_outcome.split)

lemma get_video_duration_try_snd:
  "snd (get_video_duration_try env video_path outcome trace) = trace @ [ffprobe_cmd video_path]"
  by (simp add: get_video_duration_try_def subprocess_run_cases split: run_outcome.split)

lemma get_video_duration_try_fst:
  "fst (get_video_duration_try env video_path outcome trace) =
   fst (get_video_duration_try env video_path outcome [])"
  by (simp add: get_video_duration_try_def subprocess_run_cases split: run_outcome.split)

lemma get_video_duration_snd:
  "snd (get_video_duration env video_path outcome trace) = trace @ [ffprobe_cmd video_path]"
  using get_video_duration_try_snd [of env video_path outcome trace]
  by (auto simp add: get_video_duration_def split: prod.split sum.split)

lemma get_video_duration_fst:
  "fst (get_video_duration env video_path outcome trace) =
   fst (get_video_duration env video_path outcome [])"
  using get_video_duration_try_fst [of env video_path outcome trace]
  by (auto simp add: get_video_duration_def split: prod.split sum.split)

lemma read_duration_Inr:
  "read_duration env result = Inr (s, d) \<Longrightarrow> duration_str_of d = Inr s"
  by (auto simp add: read_duration_def split: sum.splits)

lemma get_video_duration_Inr:
  assumes "fst (get_video_duration env video_path outcome trace) = Inr (s, d)"
  shows "duration_str_of d = Inr s"
  using assms
  by (auto simp add: get_video_duration_def get_video_duration_try_def subprocess_run_cases
      split: prod.splits sum.splits run_outcome.splits if_splits
      dest: read_duration_Inr)

lemma get_video_duration_eq:
  "get_video_duration env video_path outcome trace =
     (inspection env video_path outcome, trace @ [ffprobe_cmd video_path])"
  using get_video_duration_fst [of env video_path outcome trace]
    get_video_duration_snd [of env video_path outcome trace]
  by (simp add: inspection_def prod_eq_iff)

lemma generate_thumbnail_try_eq:
  "generate_thumbnail_try env video_path output_path d outcome trace =
     (fst (generate_thumbnail_try env video_path output_path d outcome []),
      trace @ [ffmpeg_cmd env video_path output_path (float_mul d float_0_1)])"
  by (simp add: generate_thumbnail_try_def subprocess_run_cases Let_def split: run_outcome.split)

lemma generate_thumbnail_eq:
  "generate_thumbnail env video_path output_path d outcome trace =
     (extraction env video_path output_path d outcome,
      trace @ [ffmpeg_cmd env video_path output_path (float_mul d float_0_1)])"
proof -
  obtain r where r: "fst (generate_thumbnail_try env video_path output_path d outcome []) = r"
    by simp
  have a: "generate_thumbnail_try env video_path output_path d outcome trace =
        (r, trace @ [ffmpeg_cmd env video_path output_path (float_mul d float_0_1)])"
    using generate_thumbnail_try_eq [of env video_path output_path d outcome trace] r by simp
  have b: "generate_thumbnail_try env video_path output_path d outcome [] =
        (r, [ffmpeg_cmd env video_path output_path (float_mul d float_0_1)])"
    using generate_thumbnail_try_eq [of env video_path output_path d outcome "[]"] r by simp
  show ?thesis
    by (cases r) (simp_all add: generate_thumbnail_def extraction_def a b)
qed

lemma inspection_cases:
  "inspection env p outcome =
     (case outcome of
        SpawnError e \<Rightarrow> Inl (duration_handlers env e)
      | Exited r \<Rightarrow>
          if returncode r \<noteq> 0
          then Inl (Exception (''Failed to extract duration: '' @
                 lib_str env (CalledProcessError (returncode r) (ffprobe_cmd p))))
          else (case read_duration env r of
                  Inl e \<Rightarrow> Inl (duration_handlers env e)
                | Inr x \<Rightarrow> Inr x))"
  by (simp add: inspection_def get_video_duration_def get_video_duration_try_def
      subprocess_run_cases duration_handlers_def exn_str_def
      split: run_outcome.split sum.split)

lemma duration_str_of_not_finite:
  "duration_str_of NaN = Inl (PyError ''ValueError'' ''cannot convert float NaN to integer'')"
  "duration_str_of PosInf = Inl (PyError ''ValueError'' ''cannot convert float NaN to integer'')"
  "duration_str_of NegInf = Inl (PyError ''ValueError'' ''cannot convert float NaN to integer'')"
  by (simp_all add: duration_str_of_def hours_of_def py_floordiv_def py_int_def float_sub_def
      Let_def)

lemma inspection_nonzero_exit:
  assumes "outcome = Exited r" and "returncode r \<noteq> 0"
  shows "inspection env p outcome =
     Inl (Exception (''Failed to extract duration: '' @
       lib_str env (CalledProcessError (returncode r) (ffprobe_cmd p))))"
  using assms by (simp add: inspection_cases)

lemma inspection_spawn_error:
  assumes "outcome = SpawnError (PyError c m)"
  shows "inspection env p outcome = Inl (PyError c m)"
  using assms by (simp add: inspection_cases duration_handlers_def)

lemma inspection_malformed_output:
  assumes "outcome = Exited r" and "returncode r = 0"
    and "json_loads env (stdout r) = Inl (PyError c m)"
  shows "inspection env p outcome = Inl (PyError c m)"
  using assms by (simp add: inspection_cases read_duration_def duration_handlers_def)

lemma inspection_unreadable_field:
  assumes "outcome = Exited r" and "returncode r = 0"
    and "json_loads env (stdout r) = Inr metadata"
    and "format_duration env metadata = Inl (PyError c m)"
  shows "inspection env p outcome = Inl (PyError c m)"
  using assms by (simp add: inspection_cases read_duration_def duration_handlers_def)

lemma inspection_not_finite:
  assumes "outcome = Exited r" and "returncode r = 0"
    and "json_loads env (stdout r) = Inr metadata"
    and "format_duration env metadata = Inr d"
    and "d = NaN \<or> d = PosInf \<or> d = NegInf"
  shows "inspection env p outcome =
     Inl (PyError ''ValueError'' ''cannot convert float NaN to integer'')"
  using assms
  by (auto simp add: inspection_cases read_duration_def duration_handlers_def
      duration_str_of_not_finite)

lemma extraction_cases:
  "extraction env p out d outcome =
     (case outcome of
        SpawnError e \<Rightarrow> Inl (thumbnail_handlers env e)
      | Exited r \<Rightarrow>
          if returncode r \<noteq> 0
          then Inl (Exception (''Failed to generate thumbnail: '' @
                 lib_str env (CalledProcessError (returncode r)
                   (ffmpeg_cmd env p out (float_mul d float_0_1)))))
          else Inr True)"
  by (simp add: extraction_def generate_thumbnail_def generate_thumbnail_try_def Let_def
      subprocess_run_cases thumbnail_handlers_def exn_str_def
      split: run_outcome.split sum.split)

lemma steps_cases:
  obtains (fails) e where "step_fails env video_path stored_filename a e"
  | (succeeds) s d b where "inspection env video_path (probe a) = Inr (s, d)"
      and "extraction env video_path (thumbnail_path_of env stored_filename) d (thumb a) = Inr b"
proof (cases "inspection env video_path (probe a)")
  case (Inl e)
  then have "step_fails env video_path stored_filename a e" by (simp add: step_fails_def)
  then show ?thesis by (rule fails)
next
  case (Inr r)
  obtain s d where r: "r = (s, d)" by (cases r)
  show ?thesis
  proof (cases "extraction env video_path (thumbnail_path_of env stored_filename) d (thumb a)")
    case (Inl e)
    then have "step_fails env video_path stored_filename a e"
      using Inr r by (simp add: step_fails_def)
    then show ?thesis by (rule fails)
  next
    case b: (Inr b)
    show ?thesis using Inr r b by (auto intro: succeeds)
  qed
qed

section \<open>Updates of the collection\<close>

lemma update_one_cmds: "cmds (update_one k changes st) = cmds st"
  by (simp add: update_one_def)

lemma update_one_writes: "writes (update_one k changes st) = writes st @ [(k, changes)]"
  by (simp add: update_one_def)

lemma update_one_db:
  "db (update_one k changes st) =
     (case db st k of None \<Rightarrow> db st | Some doc \<Rightarrow> (db st)(k \<mapsto> doc ++ map_of changes))"
  by (simp add: update_one_def)

lemma stored_field_update_one:
  "stored_field (update_one k changes st) k name =
     (case db st k of
        None \<Rightarrow> None
      | Some doc \<Rightarrow> (case map_of changes name of None \<Rightarrow> doc name | Some v \<Rightarrow> Some v))"
  by (simp add: stored_field_def update_one_db map_add_def split: option.split)

lemma db_update_one_dom: "(db (update_one k changes st) j = None) = (db st j = None)"
  by (simp add: update_one_db split: option.split)

lemma failed_state_fields:
  assumes "db st k = Some doc"
  shows "stored_field (update_one k (failed_update m now) ((update_one k processing_update st)\<lparr>cmds := c\<rparr>)) k ''status'' = Some (BStr ''failed'')"
    and "stored_field (update_one k (failed_update m now) ((update_one k processing_update st)\<lparr>cmds := c\<rparr>)) k ''error_message'' = Some (BStr m)"
    and "stored_field (update_one k (failed_update m now) ((update_one k processing_update st)\<lparr>cmds := c\<rparr>)) k ''processed_time'' = Some (BStr now)"
    and "writes (update_one k (failed_update m now) ((update_one k processing_update st)\<lparr>cmds := c\<rparr>)) =
           writes st @ [(k, processing_update), (k, failed_update m now)]"
    and "db (update_one k (failed_update m now) ((update_one k processing_update st)\<lparr>cmds := c\<rparr>)) k \<noteq> None"
  using assms
  by (simp_all add: stored_field_update_one update_one_db update_one_writes failed_update_def)

lemma done_state_fields:
  assumes "db st k = Some doc"
  shows "stored_field (update_one k (done_update s f now) ((update_one k processing_update st)\<lparr>cmds := c\<rparr>)) k ''status'' = Some (BStr ''done'')"
    and "stored_field (update_one k (done_update s f now) ((update_one k processing_update st)\<lparr>cmds := c\<rparr>)) k ''duration'' = Some (BStr s)"
    and "stored_field (update_one k (done_update s f now) ((update_one k processing_update st)\<lparr>cmds := c\<rparr>)) k ''thumbnail_filename'' = Some (BStr f)"
    and "stored_field (update_one k (done_update s f now) ((update_one k processing_update st)\<lparr>cmds := c\<rparr>)) k ''processed_time'' = Some (BStr now)"
    and "writes (update_one k (done_update s f now) ((update_one k processing_update st)\<lparr>cmds := c\<rparr>)) =
           writes st @ [(k, processing_update), (k, done_update s f now)]"
    and "db (update_one k (done_update s f now) ((update_one k processing_update st)\<lparr>cmds := c\<rparr>)) k \<noteq> None"
  using assms
  by (simp_all add: stored_field_update_one update_one_db update_one_writes done_update_def)

lemma after_failed_inspection_fields:
  assumes "db st k \<noteq> None"
  shows "stored_field (after_failed_inspection env k video_path e a st) k ''status'' = Some (BStr ''failed'')"
    and "stored_field (after_failed_inspection env k video_path e a st) k ''error_message'' =
           Some (BStr (exn_str env e))"
    and "db (after_failed_inspection env k video_path e a st) k \<noteq> None"
proof -
  obtain doc where doc: "db st k = Some doc" using assms by blast
  show "stored_field (after_failed_inspection env k video_path e a st) k ''status'' = Some (BStr ''failed'')"
    unfolding after_failed_inspection_def using failed_state_fields(1) [OF doc] by simp
  show "stored_field (after_failed_inspection env k video_path e a st) k ''error_message'' =
           Some (BStr (exn_str env e))"
    unfolding after_failed_inspection_def using failed_state_fields(2) [OF doc] by simp
  show "db (after_failed_inspection env k video_path e a st) k \<noteq> None"
    unfolding after_failed_inspection_def using failed_state_fields(5) [OF doc] by simp
qed

section \<open>A run of the task, case by case\<close>

lemma celery_retry_cases:
  "celery_retry n e c m = (if n < m then Retry e c (Suc n) else Raised e)"
  by (simp add: celery_retry_def Let_def)

lemma process_video_try_invalid:
  "object_id env video_id = Inl e \<Longrightarrow>
   process_video_try env video_id video_path stored_filename a st = (Inl e, st)"
  by (simp add: process_video_try_def)

lemma process_video_try_inspection_fails:
  assumes "object_id env video_id = Inr k"
    and "inspection env video_path (probe a) = Inl e"
  shows "process_video_try env video_id video_path stored_filename a st =
     (Inl e, (update_one k processing_update st)\<lparr>cmds := cmds st @ [ffprobe_cmd video_path]\<rparr>)"
  using assms
  by (simp add: process_video_try_def get_video_duration_eq update_one_cmds processing_update_def)

lemma process_video_try_extraction_fails:
  assumes "object_id env video_id = Inr k"
    and "inspection env video_path (probe a) = Inr (s, d)"
    and "extraction env video_path (path_join (thumbnail_dir env) (thumbnail_filename_of stored_filename))
           d (thumb a) = Inl e"
  shows "process_video_try env video_id video_path stored_filename a st =
     (Inl e, (update_one k processing_update st)\<lparr>cmds := cmds st @
        [ffprobe_cmd video_path,
         ffmpeg_cmd env video_path
           (path_join (thumbnail_dir env) (thumbnail_filename_of stored_filename))
           (float_mul d float_0_1)]\<rparr>)"
  using assms
  by (simp add: process_video_try_def get_video_duration_eq generate_thumbnail_eq update_one_cmds
      processing_update_def)

lemma process_video_try_succeeds:
  assumes "object_id env video_id = Inr k"
    and "inspection env video_path (probe a) = Inr (s, d)"
    and "extraction env video_path (path_join (thumbnail_dir env) (thumbnail_filename_of stored_filename))
           d (thumb a) = Inr b"
  shows "process_video_try env video_id video_path stored_filename a st =
     (Inr [(''video_id'', video_id), (''status'', ''done''), (''duration'', s),
           (''thumbnail_filename'', thumbnail_filename_of stored_filename)],
      update_one k (done_update s (thumbnail_filename_of stored_filename) (utcnow a))
        ((update_one k processing_update st)\<lparr>cmds := cmds st @
          [ffprobe_cmd video_path,
           ffmpeg_cmd env video_path
             (path_join (thumbnail_dir env) (thumbnail_filename_of stored_filename))
             (float_mul d float_0_1)]\<rparr>))"
  using assms
  by (simp add: process_video_try_def get_video_duration_eq generate_thumbnail_eq update_one_cmds
      processing_update_def done_update_def Let_def)

lemma process_video_invalid:
  "object_id env video_id = Inl e \<Longrightarrow>
   process_video env n video_id video_path stored_filename a st = (Raised e, st)"
  by (simp add: process_video_def process_video_try_invalid)

lemma process_video_fails:
  assumes "object_id env video_id = Inr k"
    and "process_video_try env video_id video_path stored_filename a st = (Inl e, st1)"
  shows "process_video env n video_id video_path stored_filename a st =
     (celery_retry n e 60 3, update_one k (failed_update (exn_str env e) (utcnow a)) st1)"
  using assms by (simp add: process_video_def failed_update_def)

lemma process_video_returns:
  assumes "process_video_try env video_id video_path stored_filename a st = (Inr res, st1)"
  shows "process_video env n video_id video_path stored_filename a st = (Returned res, st1)"
  using assms by (simp add: process_video_def)

lemma process_video_inspection_fails:
  assumes "object_id env video_id = Inr k"
    and "inspection env video_path (probe a) = Inl e"
  shows "process_video env n video_id video_path stored_filename a st =
     (celery_retry n e 60 3,
      update_one k (failed_update (exn_str env e) (utcnow a))
        ((update_one k processing_update st)\<lparr>cmds := cmds st @ [ffprobe_cmd video_path]\<rparr>))"
  using process_video_fails [OF assms(1) process_video_try_inspection_fails [OF assms]] .

lemma failed_inspection_recorded:
  assumes "object_id env video_id = Inr k"
    and "db st k = Some doc"
    and "inspection env video_path (probe a) = Inl e"
  shows "stored_field (snd (process_video env n video_id video_path stored_filename a st)) k ''status''
           = Some (BStr ''failed'')"
    and "stored_field (snd (process_video env n video_id video_path stored_filename a st)) k
           ''error_message'' = Some (BStr (exn_str env e))"
    and "cmds (snd (process_video env n video_id video_path stored_filename a st))
           = cmds st @ [ffprobe_cmd video_path]"
    and "fst (process_video env n video_id video_path stored_filename a st) = celery_retry n e 60 3"
  using failed_state_fields(1,2) [OF assms(2)]
  by (simp_all add: process_video_inspection_fails [OF assms(1,3)] update_one_cmds)

lemma process_video_extraction_fails:
  assumes "object_id env video_id = Inr k"
    and "inspection env video_path (probe a) = Inr (s, d)"
    and "extraction env video_path (thumbnail_path_of env stored_filename) d (thumb a) = Inl e"
  shows "process_video env n video_id video_path stored_filename a st =
     (celery_retry n e 60 3,
      update_one k (failed_update (exn_str env e) (utcnow a))
        ((update_one k processing_update st)\<lparr>cmds := cmds st @
           [ffprobe_cmd video_path,
            ffmpeg_cmd env video_path (thumbnail_path_of env stored_filename)
              (float_mul d float_0_1)]\<rparr>))"
  using process_video_fails [OF assms(1)
      process_video_try_extraction_fails [OF assms(1,2) assms(3) [unfolded thumbnail_path_of_def]]]
  by (simp add: thumbnail_path_of_def)

lemma process_video_succeeds:
  assumes "object_id env video_id = Inr k"
    and "inspection env video_path (probe a) = Inr (s, d)"
    and "extraction env video_path (thumbnail_path_of env stored_filename) d (thumb a) = Inr b"
  shows "process_video env n video_id video_path stored_filename a st =
     (Returned [(''video_id'', video_id), (''status'', ''done''), (''duration'', s),
                (''thumbnail_filename'', thumbnail_filename_of stored_filename)],
      update_one k (done_update s (thumbnail_filename_of stored_filename) (utcnow a))
        ((update_one k processing_update st)\<lparr>cmds := cmds st @
           [ffprobe_cmd video_path,
            ffmpeg_cmd env video_path (thumbnail_path_of env stored_filename)
              (float_mul d float_0_1)]\<rparr>))"
  using process_video_returns [OF
      process_video_try_succeeds [OF assms(1,2) assms(3) [unfolded thumbnail_path_of_def]]]
  by (simp add: thumbnail_path_of_def)

lemma process_video_step_fails:
  assumes "object_id env video_id = Inr k"
    and "step_fails env video_path stored_filename a e"
  shows "\<exists>c. process_video env n video_id video_path stored_filename a st =
     (celery_retry n e 60 3,
      update_one k (failed_update (exn_str env e) (utcnow a))
        ((update_one k processing_update st)\<lparr>cmds := c\<rparr>))"
proof (cases "inspection env video_path (probe a)")
  case (Inl e')
  then have "e' = e" using assms(2) by (simp add: step_fails_def)
  then show ?thesis using process_video_inspection_fails [OF assms(1), of video_path a e] Inl by blast
next
  case (Inr r)
  obtain s d where r: "r = (s, d)" by (cases r)
  have "extraction env video_path (thumbnail_path_of env stored_filename) d (thumb a) = Inl e"
    using assms(2) Inr r by (simp add: step_fails_def)
  then show ?thesis
    using process_video_extraction_fails [OF assms(1), of video_path a s d stored_filename e] Inr r
    by blast
qed

lemma process_video_status:
  assumes "object_id env video_id = Inr k"
    and "db st k = Some doc"
    and "process_video env n video_id video_path stored_filename a st = (out, st')"
  shows "db st' k \<noteq> None \<and>
     (case out of
        Returned res \<Rightarrow> stored_field st' k ''status'' = Some (BStr ''done'')
      | _ \<Rightarrow> stored_field st' k ''status'' = Some (BStr ''failed''))"
proof (cases rule: steps_cases [of env video_path stored_filename a])
  case (fails e)
  obtain c where "process_video env n video_id video_path stored_filename a st =
     (celery_retry n e 60 3,
      update_one k (failed_update (exn_str env e) (utcnow a))
        ((update_one k processing_update st)\<lparr>cmds := c\<rparr>))"
    using process_video_step_fails [OF assms(1) fails] by blast
  then have out: "out = celery_retry n e 60 3"
    and st': "st' = update_one k (failed_update (exn_str env e) (utcnow a))
        ((update_one k processing_update st)\<lparr>cmds := c\<rparr>)"
    using assms(3) by simp_all
  show ?thesis
    using failed_state_fields(1,5) [OF assms(2)]
    by (simp add: out st' celery_retry_cases)
next
  case (succeeds s d b)
  have "process_video env n video_id video_path stored_filename a st =
     (Returned [(''video_id'', video_id), (''status'', ''done''), (''duration'', s),
                (''thumbnail_filename'', thumbnail_filename_of stored_filename)],
      update_one k (done_update s (thumbnail_filename_of stored_filename) (utcnow a))
        ((update_one k processing_update st)\<lparr>cmds := cmds st @
           [ffprobe_cmd video_path,
            ffmpeg_cmd env video_path (thumbnail_path_of env stored_filename)
              (float_mul d float_0_1)]\<rparr>))"
    using process_video_succeeds [OF assms(1) succeeds] .
  then have out: "out = Returned [(''video_id'', video_id), (''status'', ''done''), (''duration'', s),
                (''thumbnail_filename'', thumbnail_filename_of stored_filename)]"
    and st': "st' = update_one k (done_update s (thumbnail_filename_of stored_filename) (utcnow a))
        ((update_one k processing_update st)\<lparr>cmds := cmds st @
           [ffprobe_cmd video_path,
            ffmpeg_cmd env video_path (thumbnail_path_of env stored_filename)
              (float_mul d float_0_1)]\<rparr>)"
    using assms(3) by simp_all
  show ?thesis
    using done_state_fields(1,6) [OF assms(2)]
    by (simp add: out st')
qed

section \<open>The runs of a job\<close>

lemma run_job_single:
  "run_job env video_id video_path stored_filename n [a] st =
     [process_video env n video_id video_path stored_filename a st]"
  by (simp add: Let_def split: prod.split task_outcome.split)

lemma run_job_two:
  assumes "process_video env n video_id video_path stored_filename a1 st = (Retry e c r, st1)"
    and "process_video env r video_id video_path stored_filename a2 st1 = (Returned res, st2)"
  shows "run_job env video_id video_path stored_filename n [a1, a2] st =
     [(Retry e c r, st1), (Returned res, st2)]"
  using assms by simp

lemma run_job_status:
  assumes "object_id env video_id = Inr k"
    and "db st k = Some doc"
    and "(out, st') \<in> set (run_job env video_id video_path stored_filename n attempts st)"
  shows "case out of
        Returned res \<Rightarrow> stored_field st' k ''status'' = Some (BStr ''done'')
      | _ \<Rightarrow> stored_field st' k ''status'' = Some (BStr ''failed'')"
  using assms(2,3)
proof (induction attempts arbitrary: n st doc)
  case Nil
  then show ?case by simp
next
  case (Cons a attempts)
  obtain o1 s1 where p: "process_video env n video_id video_path stored_filename a st = (o1, s1)"
    by (cases "process_video env n video_id video_path stored_filename a st")
  have st1: "db s1 k \<noteq> None"
    and here: "case o1 of
        Returned res \<Rightarrow> stored_field s1 k ''status'' = Some (BStr ''done'')
      | _ \<Rightarrow> stored_field s1 k ''status'' = Some (BStr ''failed'')"
    using process_video_status [OF assms(1) Cons.prems(1) p] by simp_all
  obtain doc1 where doc1: "db s1 k = Some doc1" using st1 by blast
  from Cons.prems(2) p have
    "(out, st') = (o1, s1) \<or>
     (\<exists>e c r. o1 = Retry e c r \<and>
        (out, st') \<in> set (run_job env video_id video_path stored_filename r attempts s1))"
    by (auto split: task_outcome.splits)
  then show ?case
  proof
    assume "(out, st') = (o1, s1)"
    then show ?thesis using here by auto
  next
    assume "\<exists>e c r. o1 = Retry e c r \<and>
        (out, st') \<in> set (run_job env video_id video_path stored_filename r attempts s1)"
    then obtain e c r where
      "(out, st') \<in> set (run_job env video_id video_path stored_filename r attempts s1)"
      by blast
    then show ?thesis using Cons.IH [OF doc1] by blast
  qed
qed

lemma run_job_inspection_fails:
  assumes "object_id env video_id = Inr k"
    and "inspection env video_path (probe a) = Inl e"
  shows "run_job env video_id video_path stored_filename n (a # as) st =
     (celery_retry n e 60 3,
      update_one k (failed_update (exn_str env e) (utcnow a))
        ((update_one k processing_update st)\<lparr>cmds := cmds st @ [ffprobe_cmd video_path]\<rparr>)) #
     (if n < 3
      then run_job env video_id video_path stored_filename (Suc n) as
             (update_one k (failed_update (exn_str env e) (utcnow a))
               ((update_one k processing_update st)\<lparr>cmds := cmds st @ [ffprobe_cmd video_path]\<rparr>))
      else [])"
  by (simp add: process_video_inspection_fails [OF assms] celery_retry_cases)

lemma length_ge_4:
  assumes "4 \<le> length xs"
  obtains a1 a2 a3 a4 rest where "xs = a1 # a2 # a3 # a4 # rest"
proof -
  obtain a1 r1 where 1: "xs = a1 # r1" using assms by (cases xs) auto
  obtain a2 r2 where 2: "r1 = a2 # r2" using assms 1 by (cases r1) auto
  obtain a3 r3 where 3: "r2 = a3 # r3" using assms 1 2 by (cases r2) auto
  obtain a4 r4 where 4: "r3 = a4 # r4" using assms 1 2 3 by (cases r3) auto
  show ?thesis using that 1 2 3 4 by simp
qed

lemma run_job_four_failures:
  assumes "object_id env video_id = Inr k"
    and "inspection env video_path (probe a1) = Inl e1"
    and "inspection env video_path (probe a2) = Inl e2"
    and "inspection env video_path (probe a3) = Inl e3"
    and "inspection env video_path (probe a4) = Inl e4"
  shows "run_job env video_id video_path stored_filename 0 (a1 # a2 # a3 # a4 # rest) st =
     [(Retry e1 60 1, after_failed_inspection env k video_path e1 a1 st),
      (Retry e2 60 2, after_failed_inspection env k video_path e2 a2
         (after_failed_inspection env k video_path e1 a1 st)),
      (Retry e3 60 3, after_failed_inspection env k video_path e3 a3
         (after_failed_inspection env k video_path e2 a2
           (after_failed_inspection env k video_path e1 a1 st))),
      (Raised e4, after_failed_inspection env k video_path e4 a4
         (after_failed_inspection env k video_path e3 a3
           (after_failed_inspection env k video_path e2 a2
             (after_failed_inspection env k video_path e1 a1 st))))]"
proof -
  let ?s1 = "after_failed_inspection env k video_path e1 a1 st"
  let ?s2 = "after_failed_inspection env k video_path e2 a2 ?s1"
  let ?s3 = "after_failed_inspection env k video_path e3 a3 ?s2"
  let ?s4 = "after_failed_inspection env k video_path e4 a4 ?s3"
  note step = run_job_inspection_fails [OF assms(1), folded after_failed_inspection_def]
  have r4: "run_job env video_id video_path stored_filename (Suc (Suc (Suc 0))) (a4 # rest) ?s3 =
      [(Raised e4, ?s4)]"
    by (simp add: step [OF assms(5)] celery_retry_cases del: run_job.simps)
  have r3: "run_job env video_id video_path stored_filename (Suc (Suc 0)) (a3 # a4 # rest) ?s2 =
      [(Retry e3 60 (Suc (Suc (Suc 0))), ?s3), (Raised e4, ?s4)]"
    by (simp add: step [OF assms(4)] celery_retry_cases r4 del: run_job.simps)
  have r2: "run_job env video_id video_path stored_filename (Suc 0) (a2 # a3 # a4 # rest) ?s1 =
      [(Retry e2 60 (Suc (Suc 0)), ?s2), (Retry e3 60 (Suc (Suc (Suc 0))), ?s3), (Raised e4, ?s4)]"
    by (simp add: step [OF assms(3)] celery_retry_cases r3 del: run_job.simps)
  have r0: "run_job env video_id video_path stored_filename 0 (a1 # a2 # a3 # a4 # rest) st =
      [(Retry e1 60 (Suc 0), ?s1), (Retry e2 60 (Suc (Suc 0)), ?s2),
       (Retry e3 60 (Suc (Suc (Suc 0))), ?s3), (Raised e4, ?s4)]"
    by (simp add: step [OF assms(2)] celery_retry_cases r2 del: run_job.simps)
  show ?thesis
    using r0 by (simp only: numeral_2_eq_2 numeral_3_eq_3 One_nat_def)
qed

section \<open>The two endpoints\<close>

lemma get_video_status_frame: "snd (get_video_status env video_id st) = st"
  by (simp add: get_video_status_def get_video_status_try_def find_one_def
      split: sum.split bool.split option.split prod.split)

lemma get_video_metadata_frame: "snd (get_video_metadata env video_id st) = st"
  by (simp add: get_video_metadata_def get_video_metadata_try_def find_one_def Let_def
      split: sum.split bool.split option.split prod.split)

lemma is_valid_Inr:
  "video_id \<noteq> [] \<Longrightarrow> object_id env video_id = Inr k \<Longrightarrow> is_valid env video_id = Inr True"
  by (simp add: is_valid_def)

lemma get_video_status_found:
  assumes "video_id \<noteq> []"
    and "object_id env video_id = Inr k"
    and "videos_collection st k = Some doc"
    and "doc ''status'' = Some (BStr s)"
  shows "fst (get_video_status env video_id st) = Inr \<lparr>vs_id = video_id, vs_status = s\<rparr>"
  using assms
  by (simp add: get_video_status_def get_video_status_try_def find_one_def is_valid_Inr
      getitem_def VideoStatus_def refused_def str_of_def)

lemma get_video_metadata_found:
  assumes "video_id \<noteq> []"
    and "object_id env video_id = Inr k"
    and "videos_collection st k = Some doc"
    and "doc ''status'' = Some (BStr s)"
    and "doc ''filename'' = Some (BStr f)"
    and "doc ''upload_time'' = Some (BStr u)"
  shows "fst (get_video_metadata env video_id st) =
     Inr \<lparr>vm_id = video_id, vm_filename = f, vm_upload_time = u, vm_status = s,
          vm_duration = opt_str_of (doc ''duration''),
          vm_thumbnail_url = thumbnail_url_of doc\<rparr>"
  using assms
  by (simp add: get_video_metadata_def get_video_metadata_try_def find_one_def is_valid_Inr
      getitem_def VideoMetadata_def refused_def str_of_def Let_def)

lemma thumbnail_url_of_Some:
  "(thumbnail_url_of doc = Some url) =
     (\<exists>t. doc ''thumbnail_filename'' = Some (BStr t) \<and> t \<noteq> [] \<and> url = ''/thumbnails/'' @ t)"
  by (auto simp add: thumbnail_url_of_def split: option.splits bson.splits)

section \<open>Concrete runs\<close>

text \<open>The model evaluated on the concrete inputs.\<close>

lemma mul_100: "float_mul (Finite 100) float_0_1 = Finite 10"
  by code_simp

lemma mul_120: "float_mul (Finite 120) float_0_1 = Finite 12"
  by code_simp

lemma duration_120: "duration_str_of (Finite 120) = Inr ''00:02:00''"
proof -
  have "duration_str_of (Finite 120) = Inr (hms_truncated 120)"
    by (rule duration_str_of_exact) simp_all
  moreover have "hms_truncated 120 = ''00:02:00''" by code_simp
  ultimately show ?thesis by simp
qed

lemma duration_100: "duration_str_of (Finite 100) = Inr ''00:01:40''"
proof -
  have "duration_str_of (Finite 100) = Inr (hms_truncated 100)"
    by (rule duration_str_of_exact) simp_all
  moreover have "hms_truncated 100 = ''00:01:40''" by code_simp
  ultimately show ?thesis by simp
qed

lemma str_10: "simple_float_str (Finite 10) = ''10.0''"
  by code_simp

lemma run_outcome_ok: "subprocess_run cmd True ok_run trace =
   (Inr \<lparr>returncode = 0, stdout = ''{}'', stderr = []\<rparr>, trace @ [cmd])"
  by (simp add: subprocess_run_cases ok_run_def)

lemma hex24_video_id0: "hex24_object_id video_id0 = Inr video_id0"
  by (simp add: hex24_object_id_def video_id0_def hex_lower_def)

lemma object_id_probed [simp]: "object_id (probed d) = hex24_object_id"
  by (simp add: probed_def)

lemma thumbnail_dir_probed: "thumbnail_dir (probed d) = ''./thumbnails''"
  by (simp add: probed_def)

lemma inspection_ok:
  "duration_str_of d = Inr s \<Longrightarrow> inspection (probed d) p ok_run = Inr (s, d)"
  by (simp add: inspection_def get_video_duration_def get_video_duration_try_def run_outcome_ok
      read_duration_def probed_def)

lemma inspect_ok:
  "duration_str_of d = Inr s \<Longrightarrow>
   fst (get_video_duration (probed d) p ok_run []) = Inr (s, d)"
  using inspection_ok [of d s p] by (simp add: inspection_def)

lemma inspection_120: "inspection (probed (Finite 120)) p ok_run = Inr (''00:02:00'', Finite 120)"
  by (simp add: inspection_ok duration_120)

lemma inspection_failed:
  "inspection (probed z) p failed_run =
     Inl (Exception (''Failed to extract duration: '' @ simple_lib_str (CalledProcessError 1 (ffprobe_cmd p))))"
  by (simp add: inspection_cases failed_run_def probed_def)

lemma probe_fails_inspection:
  "inspection (probed z) ''./uploads/abc.mp4'' (probe (probe_fails now)) = Inl probe_error"
  by (simp add: probe_fails_def inspection_failed probe_error_def)

lemma extraction_ok: "extraction (probed z) p out d ok_run = Inr True"
  by (simp add: extraction_def generate_thumbnail_def generate_thumbnail_try_def run_outcome_ok)

lemma extraction_failed:
  "extraction (probed z) p out d failed_run =
     Inl (Exception (''Failed to generate thumbnail: '' @
            simple_lib_str (CalledProcessError 1 (ffmpeg_cmd (probed z) p out (float_mul d float_0_1)))))"
  by (simp add: extraction_cases failed_run_def probed_def)

lemma splitext_abc: "splitext ''abc.mp4'' = (''abc'', ''.mp4'')"
  by (simp add: splitext_def rfind_def Let_def)

lemma thumbnail_filename_abc: "thumbnail_filename_of ''abc.mp4'' = ''thumb_abc.jpg''"
  by (simp add: thumbnail_filename_of_def splitext_abc)

lemma thumbnail_path_abc: "path_join ''./thumbnails'' ''thumb_abc.jpg'' = ''./thumbnails/thumb_abc.jpg''"
  by (simp add: path_join_def)

lemma thumbnail_path_probed:
  "thumbnail_path_of (probed d) ''abc.mp4'' = ''./thumbnails/thumb_abc.jpg''"
  by (simp add: thumbnail_path_of_def thumbnail_filename_abc thumbnail_dir_probed thumbnail_path_abc)

lemma step_fails_thumb:
  "step_fails (probed (Finite 120)) ''./uploads/abc.mp4'' ''abc.mp4'' (thumb_fails now)
     (Exception (''Failed to generate thumbnail: '' @
        simple_lib_str (CalledProcessError 1
          (ffmpeg_cmd (probed (Finite 120)) ''./uploads/abc.mp4'' ''./thumbnails/thumb_abc.jpg'' (Finite 12)))))"
  by (simp add: step_fails_def thumb_fails_def inspection_120 extraction_failed mul_120
      thumbnail_path_probed)

lemma ffprobe_error_text:
  "simple_lib_str (CalledProcessError 1 (ffprobe_cmd ''./uploads/abc.mp4'')) =
     ''Command '['ffprobe', '-v', 'quiet', '-print_format', 'json', '-show_format', './uploads/abc.mp4']' returned non-zero exit status 1.''"
  by code_simp

lemma utcnow_good_attempt: "utcnow (good_attempt t) = t"
  by (simp add: good_attempt_def)

lemma db_store0: "db store0 video_id0 = Some pending_doc"
  by (simp add: store0_def)

lemma db_empty_store: "db empty_store video_id0 = None"
  by (simp add: empty_store_def)

lemma done_doc_fields:
  "done_doc ''status'' = Some (BStr ''done'')"
  "done_doc ''filename'' = Some (BStr ''holiday.mp4'')"
  "done_doc ''upload_time'' = Some (BStr ''2024-01-01T00:00:00'')"
  "done_doc ''duration'' = Some (BStr ''00:02:00'')"
  "done_doc ''thumbnail_filename'' = Some (BStr ''thumb_abc.jpg'')"
  by (simp_all add: done_doc_def pending_doc_def done_update_def map_add_def)

section \<open>The claims\<close>

text \<open>
  Claim C1, refuted as stated. For the float 1e22, which is not negative, the inspection
  succeeds and returns \<^verbatim>\<open>2777777777777777664:46:40\<close>: the float floor division rounds
  \<^verbatim>\<open>(1e22 - 2800.0) / 3600.0\<close> to binary64, while the integer division of the truncated
  duration by 3600 gives 2777777777777777777 hours. For the float 360000.0 it returns
  \<^verbatim>\<open>100:00:00\<close>, nine characters, which is not of the fixed form \<^verbatim>\<open>HH:MM:SS\<close>.
\<close>

theorem duration_display_counterexample:
  "fst (get_video_duration (probed (Finite float_1e22)) ''./uploads/a.mp4'' ok_run [])
     = Inr (''2777777777777777664:46:40'', Finite float_1e22) \<and>
   0 \<le> float_1e22 \<and>
   trunc float_1e22 div 3600 = 2777777777777777777 \<and>
   hms_truncated float_1e22 = ''2777777777777777777:46:40'' \<and>
   fst (get_video_duration (probed (Finite float_360000)) ''./uploads/a.mp4'' ok_run [])
     = Inr (''100:00:00'', Finite float_360000) \<and>
   0 \<le> float_360000 \<and>
   length ''100:00:00'' = 9 \<and> length (hms_fixed float_360000) = 8"
  by (simp add: inspect_ok [OF duration_1e22] inspect_ok [OF duration_360000] hms_truncated_1e22
      length_hms_fixed)
    (simp add: float_1e22_def float_360000_def trunc_def)

text \<open>
  Claim C1, amended. When the inspection succeeds with a duration that is not negative
  and below \<open>2^53\<close> seconds, the display string it returns is the duration truncated to
  whole seconds and split by integer division by 3600, 60 and 60 into hours, minutes and
  seconds, minutes and seconds with two digits, hours with two digits or more. Below
  360000 seconds (one hundred hours) it is the fixed form \<^verbatim>\<open>HH:MM:SS\<close>, eight characters;
  for the float 3725.9 it is \<^verbatim>\<open>01:02:05\<close>.
\<close>

theorem duration_display_below_2_53:
  assumes "fst (get_video_duration env video_path outcome trace) = Inr (duration_str, Finite d)"
    and "0 \<le> d" and "d < 2 ^ 53"
  shows "duration_str = hms_truncated d \<and>
         (d < 360000 \<longrightarrow> duration_str = hms_fixed d \<and> length duration_str = 8) \<and>
         (d = float_3725_9 \<longrightarrow> duration_str = ''01:02:05'')"
proof -
  have "duration_str_of (Finite d) = Inr duration_str"
    using assms(1) by (rule get_video_duration_Inr)
  then have s: "duration_str = hms_truncated d"
    using duration_str_of_exact [OF assms(2,3)] by simp
  have "hms_truncated float_3725_9 = ''01:02:05''"
    by code_simp
  then show ?thesis
    using s hms_truncated_fixed [OF assms(2)] length_hms_fixed [of d] by auto
qed

theorem duration_display_below_2_53_witness:
  "fst (get_video_duration (probed (Finite float_3725_9)) ''./uploads/a.mp4'' ok_run [])
     = Inr (''01:02:05'', Finite float_3725_9) \<and>
   0 \<le> float_3725_9 \<and> float_3725_9 < 2 ^ 53 \<and> float_3725_9 < 360000 \<and>
   hms_truncated float_3725_9 = ''01:02:05'' \<and> hms_fixed float_3725_9 = ''01:02:05'' \<and>
   length ''01:02:05'' = 8"
proof -
  have i: "fst (get_video_duration (probed (Finite float_3725_9)) ''./uploads/a.mp4'' ok_run [])
     = Inr (''01:02:05'', Finite float_3725_9)"
    by (rule inspect_ok [OF duration_3725_9])
  have b: "0 \<le> float_3725_9" "float_3725_9 < 2 ^ 53" "float_3725_9 < 360000"
    by (simp_all add: float_3725_9_def)
  note t = duration_display_below_2_53 [OF i b(1,2)]
  note t1 = t [THEN conjunct1, symmetric]
  note t2 = t [THEN conjunct2, THEN conjunct1, rule_format, OF b(3), THEN conjunct1, symmetric]
  show ?thesis
    using b(2) by (simp add: i b(1,3) t1 t2)
qed

text \<open>
  Claim C10. In \<^verbatim>\<open>get_video_duration\<close> the branch that raises for an exit status other
  than zero is never taken: \<^verbatim>\<open>subprocess.run\<close> is called with \<^verbatim>\<open>check=True\<close>, so whenever it
  returns a completed process the exit status is 0, and the body of the function is the
  same as the body without the branch.
\<close>

theorem nonzero_branch_unreachable:
  "(fst (subprocess_run (ffprobe_cmd video_path) True outcome trace) = Inr result
      \<longrightarrow> returncode result = 0) \<and>
   get_video_duration_try env video_path outcome trace =
     (case subprocess_run (ffprobe_cmd video_path) True outcome trace of
        (Inl e, trace') \<Rightarrow> (Inl e, trace')
      | (Inr result, trace') \<Rightarrow> (read_duration env result, trace'))"
  by (auto simp add: get_video_duration_try_def subprocess_run_cases split: run_outcome.splits)

theorem nonzero_branch_unreachable_witness:
  "fst (subprocess_run (ffprobe_cmd ''./uploads/abc.mp4'') True ok_run []) =
      Inr \<lparr>returncode = 0, stdout = ''{}'', stderr = []\<rparr> \<and>
   returncode \<lparr>returncode = 0, stdout = ''{}'', stderr = []\<rparr> = 0 \<and>
   get_video_duration_try (probed (Finite 120)) ''./uploads/abc.mp4'' ok_run [] =
     (Inr (''00:02:00'', Finite 120), [ffprobe_cmd ''./uploads/abc.mp4''])"
proof -
  have r: "read_duration (probed (Finite 120)) \<lparr>returncode = 0, stdout = ''{}'', stderr = []\<rparr>
       = Inr (''00:02:00'', Finite 120)"
    by (simp add: read_duration_def probed_def duration_120)
  show ?thesis
    using nonzero_branch_unreachable [of "''./uploads/abc.mp4''" ok_run "[]"
        "\<lparr>returncode = 0, stdout = ''{}'', stderr = []\<rparr>" "probed (Finite 120)"]
    by (simp add: run_outcome_ok r)
qed

text \<open>
  Claim C5. After a successful inspection the task runs \<^verbatim>\<open>ffmpeg\<close> with the capture
  time \<^verbatim>\<open>duration_seconds * 0.1\<close> (the float 10.0 for the duration 100.0), the scale
  320:240, and the output path \<^verbatim>\<open>thumb_<stem>.jpg\<close> in the thumbnail directory, the stem
  being the stored file name without its extension.
\<close>

theorem thumbnail_invocation:
  assumes "object_id env video_id = Inr k"
    and "inspection env video_path (probe a) = Inr (duration_str, duration_seconds)"
  shows "cmds (snd (process_video env n video_id video_path stored_filename a st)) =
      cmds st @
      [ffprobe_cmd video_path,
       [''ffmpeg'', ''-i'', video_path,
        ''-ss'', float_str env (float_mul duration_seconds float_0_1),
        ''-vframes'', ''1'', ''-vf'', ''scale=320:240'', ''-q:v'', ''2'', ''-y'',
        path_join (thumbnail_dir env) (''thumb_'' @ fst (splitext stored_filename) @ ''.jpg'')]] \<and>
     (duration_seconds = Finite 100 \<longrightarrow> float_mul duration_seconds float_0_1 = Finite 10)"
proof (cases "extraction env video_path
     (path_join (thumbnail_dir env) (thumbnail_filename_of stored_filename))
     duration_seconds (thumb a)")
  case (Inl e)
  show ?thesis
    using process_video_try_extraction_fails [OF assms Inl, of st] assms(1)
    by (simp add: process_video_fails update_one_cmds ffmpeg_cmd_def thumbnail_filename_of_def mul_100)
next
  case (Inr b)
  show ?thesis
    using process_video_try_succeeds [OF assms Inr, of st]
    by (simp add: process_video_returns update_one_cmds ffmpeg_cmd_def thumbnail_filename_of_def mul_100)
qed

theorem thumbnail_invocation_witness:
  "hex24_object_id video_id0 = Inr video_id0 \<and>
   inspection (probed (Finite 100)) ''./uploads/abc.mp4'' ok_run = Inr (''00:01:40'', Finite 100) \<and>
   cmds (snd (process_video (probed (Finite 100)) 0 video_id0 ''./uploads/abc.mp4'' ''abc.mp4''
                (good_attempt ''2024-01-01T00:00:09'') store0)) =
     [ffprobe_cmd ''./uploads/abc.mp4'',
      [''ffmpeg'', ''-i'', ''./uploads/abc.mp4'', ''-ss'', ''10.0'',
       ''-vframes'', ''1'', ''-vf'', ''scale=320:240'', ''-q:v'', ''2'', ''-y'',
       ''./thumbnails/thumb_abc.jpg'']]"
proof -
  have i: "inspection (probed (Finite 100)) ''./uploads/abc.mp4'' (probe (good_attempt ''2024-01-01T00:00:09''))
      = Inr (''00:01:40'', Finite 100)"
    by (simp add: good_attempt_def inspection_ok [OF duration_100])
  have o: "object_id (probed (Finite 100)) video_id0 = Inr video_id0"
    by (simp add: hex24_video_id0)
  show ?thesis
    using thumbnail_invocation [OF o i, of 0 "''abc.mp4''" store0] i
    by (simp add: hex24_video_id0 good_attempt_def mul_100 splitext_abc thumbnail_path_abc
        probed_def str_10 store0_def)
qed

text \<open>
  Claim C7, refuted as stated. When \<^verbatim>\<open>ffprobe\<close> exits with status 1 and the error output
  \<^verbatim>\<open>Invalid data found\<close>, the error message written to the record is neither that
  output nor the text of the \<^verbatim>\<open>CalledProcessError\<close>: the handler of
  \<^verbatim>\<open>get_video_duration\<close> raises a new exception, whose text puts
  \<^verbatim>\<open>Failed to extract duration: \<close> before the text of the \<^verbatim>\<open>CalledProcessError\<close>, and the
  error output of the program is not in it.
\<close>

theorem error_text_verbatim_counterexample:
  "probe (probe_fails ''2024-01-01T00:00:09'') =
     Exited \<lparr>returncode = 1, stdout = [], stderr = ''Invalid data found''\<rparr> \<and>
   simple_lib_str (CalledProcessError 1 (ffprobe_cmd ''./uploads/abc.mp4'')) =
     ''Command '['ffprobe', '-v', 'quiet', '-print_format', 'json', '-show_format', './uploads/abc.mp4']' returned non-zero exit status 1.'' \<and>
   stored_field (snd (process_video (probed (Finite 120)) 0 video_id0 ''./uploads/abc.mp4'' ''abc.mp4''
       (probe_fails ''2024-01-01T00:00:09'') store0)) video_id0 ''error_message'' =
     Some (BStr ''Failed to extract duration: Command '['ffprobe', '-v', 'quiet', '-print_format', 'json', '-show_format', './uploads/abc.mp4']' returned non-zero exit status 1.'') \<and>
   stored_field (snd (process_video (probed (Finite 120)) 0 video_id0 ''./uploads/abc.mp4'' ''abc.mp4''
       (probe_fails ''2024-01-01T00:00:09'') store0)) video_id0 ''error_message'' \<noteq>
     Some (BStr ''Invalid data found'') \<and>
   stored_field (snd (process_video (probed (Finite 120)) 0 video_id0 ''./uploads/abc.mp4'' ''abc.mp4''
       (probe_fails ''2024-01-01T00:00:09'') store0)) video_id0 ''error_message'' \<noteq>
     Some (BStr (simple_lib_str (CalledProcessError 1 (ffprobe_cmd ''./uploads/abc.mp4''))))"
proof -
  have o: "object_id (probed (Finite 120)) video_id0 = Inr video_id0"
    by (simp add: hex24_video_id0)
  have m: "stored_field (snd (process_video (probed (Finite 120)) 0 video_id0 ''./uploads/abc.mp4''
       ''abc.mp4'' (probe_fails ''2024-01-01T00:00:09'') store0)) video_id0 ''error_message'' =
     Some (BStr ''Failed to extract duration: Command '['ffprobe', '-v', 'quiet', '-print_format', 'json', '-show_format', './uploads/abc.mp4']' returned non-zero exit status 1.'')"
    using failed_inspection_recorded(2) [OF o db_store0 probe_fails_inspection, of 0 "''abc.mp4''"
        "''2024-01-01T00:00:09''"]
    by (simp add: probe_error_def exn_str_def ffprobe_error_text)
  show ?thesis
    unfolding m ffprobe_error_text by (simp add: probe_fails_def failed_run_def)
qed

text \<open>
  Claim C7, amended. On a record that exists, each of these makes the duration step
  fail, and the run then stops before the thumbnail step (\<^verbatim>\<open>ffprobe\<close> is the only
  program run) and writes the status \<^verbatim>\<open>failed\<close> and an error message to the record:
  an exit status other than zero, with the message \<^verbatim>\<open>Failed to extract duration: \<close>
  followed by the text of the \<^verbatim>\<open>CalledProcessError\<close> (the error output of the program
  is not recorded); a program that cannot be started, output that \<^verbatim>\<open>json.loads\<close>
  refuses, a duration field that is missing or that \<^verbatim>\<open>float\<close> refuses, each with the
  text of the exception raised, unchanged; and a duration that is not a finite number,
  with the text of the \<^verbatim>\<open>ValueError\<close> that \<^verbatim>\<open>int\<close> raises.
\<close>

theorem duration_failure_recorded:
  assumes "object_id env video_id = Inr k"
    and "db st k = Some doc"
  shows
    "let st' = snd (process_video env n video_id video_path stored_filename a st);
         aborted_with = (\<lambda>text.
            stored_field st' k ''status'' = Some (BStr ''failed'') \<and>
            stored_field st' k ''error_message'' = Some (BStr text) \<and>
            cmds st' = cmds st @ [ffprobe_cmd video_path])
     in (probe a = Exited r \<and> returncode r \<noteq> 0 \<longrightarrow>
           aborted_with (''Failed to extract duration: '' @
             lib_str env (CalledProcessError (returncode r) (ffprobe_cmd video_path)))) \<and>
        (probe a = SpawnError (PyError c m) \<longrightarrow> aborted_with m) \<and>
        (probe a = Exited r \<and> returncode r = 0 \<and>
         json_loads env (stdout r) = Inl (PyError c m) \<longrightarrow> aborted_with m) \<and>
        (probe a = Exited r \<and> returncode r = 0 \<and>
         json_loads env (stdout r) = Inr metadata \<and>
         format_duration env metadata = Inl (PyError c m) \<longrightarrow> aborted_with m) \<and>
        (probe a = Exited r \<and> returncode r = 0 \<and>
         json_loads env (stdout r) = Inr metadata \<and>
         format_duration env metadata = Inr d \<and> (d = NaN \<or> d = PosInf \<or> d = NegInf) \<longrightarrow>
           aborted_with ''cannot convert float NaN to integer'')"
proof -
  let ?st' = "snd (process_video env n video_id video_path stored_filename a st)"
  have rec: "stored_field ?st' k ''status'' = Some (BStr ''failed'') \<and>
      stored_field ?st' k ''error_message'' = Some (BStr (exn_str env e)) \<and>
      cmds ?st' = cmds st @ [ffprobe_cmd video_path]"
    if "inspection env video_path (probe a) = Inl e" for e
    using failed_inspection_recorded(1-3) [OF assms that, where n = n and stored_filename = stored_filename]
    by simp
  have c1: "probe a = Exited r \<and> returncode r \<noteq> 0 \<longrightarrow>
      stored_field ?st' k ''status'' = Some (BStr ''failed'') \<and>
      stored_field ?st' k ''error_message'' = Some (BStr (''Failed to extract duration: '' @
             lib_str env (CalledProcessError (returncode r) (ffprobe_cmd video_path)))) \<and>
      cmds ?st' = cmds st @ [ffprobe_cmd video_path]"
    using rec [OF inspection_nonzero_exit [of "probe a" r env video_path]]
    by (simp add: exn_str_def)
  have c2: "probe a = SpawnError (PyError c m) \<longrightarrow>
      stored_field ?st' k ''status'' = Some (BStr ''failed'') \<and>
      stored_field ?st' k ''error_message'' = Some (BStr m) \<and>
      cmds ?st' = cmds st @ [ffprobe_cmd video_path]"
    using rec [OF inspection_spawn_error [of "probe a" c m env video_path]]
    by (simp add: exn_str_def)
  have c3: "probe a = Exited r \<and> returncode r = 0 \<and>
         json_loads env (stdout r) = Inl (PyError c m) \<longrightarrow>
      stored_field ?st' k ''status'' = Some (BStr ''failed'') \<and>
      stored_field ?st' k ''error_message'' = Some (BStr m) \<and>
      cmds ?st' = cmds st @ [ffprobe_cmd video_path]"
    using rec [OF inspection_malformed_output [of "probe a" r env c m video_path]]
    by (simp add: exn_str_def)
  have c4: "probe a = Exited r \<and> returncode r = 0 \<and>
         json_loads env (stdout r) = Inr metadata \<and>
         format_duration env metadata = Inl (PyError c m) \<longrightarrow>
      stored_field ?st' k ''status'' = Some (BStr ''failed'') \<and>
      stored_field ?st' k ''error_message'' = Some (BStr m) \<and>
      cmds ?st' = cmds st @ [ffprobe_cmd video_path]"
    using rec [OF inspection_unreadable_field [of "probe a" r env metadata c m video_path]]
    by (simp add: exn_str_def)
  have c5: "probe a = Exited r \<and> returncode r = 0 \<and>
         json_loads env (stdout r) = Inr metadata \<and>
         format_duration env metadata = Inr d \<and> (d = NaN \<or> d = PosInf \<or> d = NegInf) \<longrightarrow>
      stored_field ?st' k ''status'' = Some (BStr ''failed'') \<and>
      stored_field ?st' k ''error_message'' = Some (BStr ''cannot convert float NaN to integer'') \<and>
      cmds ?st' = cmds st @ [ffprobe_cmd video_path]"
    using rec [OF inspection_not_finite [of "probe a" r env metadata d video_path]]
    by (simp add: exn_str_def)
  show ?thesis
    unfolding Let_def by (intro conjI c1 c2 c3 c4 c5)
qed

theorem duration_failure_recorded_witness:
  "hex24_object_id video_id0 = Inr video_id0 \<and>
   db store0 video_id0 = Some pending_doc \<and>
   probe (probe_fails ''2024-01-01T00:00:09'') =
     Exited \<lparr>returncode = 1, stdout = [], stderr = ''Invalid data found''\<rparr> \<and>
   stored_field (snd (process_video (probed (Finite 120)) 0 video_id0 ''./uploads/abc.mp4'' ''abc.mp4''
       (probe_fails ''2024-01-01T00:00:09'') store0)) video_id0 ''status'' = Some (BStr ''failed'') \<and>
   stored_field (snd (process_video (probed (Finite 120)) 0 video_id0 ''./uploads/abc.mp4'' ''abc.mp4''
       (probe_fails ''2024-01-01T00:00:09'') store0)) video_id0 ''error_message'' =
     Some (BStr ''Failed to extract duration: Command '['ffprobe', '-v', 'quiet', '-print_format', 'json', '-show_format', './uploads/abc.mp4']' returned non-zero exit status 1.'') \<and>
   cmds (snd (process_video (probed (Finite 120)) 0 video_id0 ''./uploads/abc.mp4'' ''abc.mp4''
       (probe_fails ''2024-01-01T00:00:09'') store0)) = [ffprobe_cmd ''./uploads/abc.mp4''] \<and>
   probe (probe_missing ''2024-01-01T00:00:09'') =
     SpawnError (PyError ''FileNotFoundError''
       (''[Errno 2] No such file or directory: '' @ [CHR 0x27] @ ''ffprobe'' @ [CHR 0x27])) \<and>
   stored_field (snd (process_video (probed (Finite 120)) 0 video_id0 ''./uploads/abc.mp4'' ''abc.mp4''
       (probe_missing ''2024-01-01T00:00:09'') store0)) video_id0 ''status'' = Some (BStr ''failed'') \<and>
   stored_field (snd (process_video (probed (Finite 120)) 0 video_id0 ''./uploads/abc.mp4'' ''abc.mp4''
       (probe_missing ''2024-01-01T00:00:09'') store0)) video_id0 ''error_message'' =
     Some (BStr (''[Errno 2] No such file or directory: '' @ [CHR 0x27] @ ''ffprobe'' @ [CHR 0x27])) \<and>
   cmds (snd (process_video (probed (Finite 120)) 0 video_id0 ''./uploads/abc.mp4'' ''abc.mp4''
       (probe_missing ''2024-01-01T00:00:09'') store0)) = [ffprobe_cmd ''./uploads/abc.mp4''] \<and>
   probe (probe_silent ''2024-01-01T00:00:09'') =
     Exited \<lparr>returncode = 0, stdout = [], stderr = []\<rparr> \<and>
   json_loads reading [] = Inl (PyError ''JSONDecodeError'' ''Expecting value: line 1 column 1 (char 0)'') \<and>
   stored_field (snd (process_video reading 0 video_id0 ''./uploads/abc.mp4'' ''abc.mp4''
       (probe_silent ''2024-01-01T00:00:09'') store0)) video_id0 ''status'' = Some (BStr ''failed'') \<and>
   stored_field (snd (process_video reading 0 video_id0 ''./uploads/abc.mp4'' ''abc.mp4''
       (probe_silent ''2024-01-01T00:00:09'') store0)) video_id0 ''error_message'' =
     Some (BStr ''Expecting value: line 1 column 1 (char 0)'') \<and>
   cmds (snd (process_video reading 0 video_id0 ''./uploads/abc.mp4'' ''abc.mp4''
       (probe_silent ''2024-01-01T00:00:09'') store0)) = [ffprobe_cmd ''./uploads/abc.mp4''] \<and>
   probe (good_attempt ''2024-01-01T00:00:09'') =
     Exited \<lparr>returncode = 0, stdout = ''{}'', stderr = []\<rparr> \<and>
   json_loads reading ''{}'' = Inr ''{}'' \<and>
   format_duration reading ''{}'' = Inl (PyError ''KeyError'' ([CHR 0x27] @ ''format'' @ [CHR 0x27])) \<and>
   stored_field (snd (process_video reading 0 video_id0 ''./uploads/abc.mp4'' ''abc.mp4''
       (good_attempt ''2024-01-01T00:00:09'') store0)) video_id0 ''status'' = Some (BStr ''failed'') \<and>
   stored_field (snd (process_video reading 0 video_id0 ''./uploads/abc.mp4'' ''abc.mp4''
       (good_attempt ''2024-01-01T00:00:09'') store0)) video_id0 ''error_message'' =
     Some (BStr ([CHR 0x27] @ ''format'' @ [CHR 0x27])) \<and>
   cmds (snd (process_video reading 0 video_id0 ''./uploads/abc.mp4'' ''abc.mp4''
       (good_attempt ''2024-01-01T00:00:09'') store0)) = [ffprobe_cmd ''./uploads/abc.mp4''] \<and>
   json_loads (probed NaN) ''{}'' = Inr ''{}'' \<and>
   format_duration (probed NaN) ''{}'' = Inr NaN \<and>
   stored_field (snd (process_video (probed NaN) 0 video_id0 ''./uploads/abc.mp4'' ''abc.mp4''
       (good_attempt ''2024-01-01T00:00:09'') store0)) video_id0 ''status'' = Some (BStr ''failed'') \<and>
   stored_field (snd (process_video (probed NaN) 0 video_id0 ''./uploads/abc.mp4'' ''abc.mp4''
       (good_attempt ''2024-01-01T00:00:09'') store0)) video_id0 ''error_message'' =
     Some (BStr ''cannot convert float NaN to integer'') \<and>
   cmds (snd (process_video (probed NaN) 0 video_id0 ''./uploads/abc.mp4'' ''abc.mp4''
       (good_attempt ''2024-01-01T00:00:09'') store0)) = [ffprobe_cmd ''./uploads/abc.mp4'']"
proof -
  have o: "object_id (probed d) video_id0 = Inr video_id0" for d
    by (simp add: hex24_video_id0)
  have o': "object_id reading video_id0 = Inr video_id0"
    by (simp add: reading_def hex24_video_id0)
  have c: "cmds store0 = []" by (simp add: store0_def)
  have p: "probe (probe_fails ''2024-01-01T00:00:09'') =
       Exited \<lparr>returncode = 1, stdout = [], stderr = ''Invalid data found''\<rparr>"
    "probe (probe_missing ''2024-01-01T00:00:09'') =
       SpawnError (PyError ''FileNotFoundError''
         (''[Errno 2] No such file or directory: '' @ [CHR 0x27] @ ''ffprobe'' @ [CHR 0x27]))"
    "probe (probe_silent ''2024-01-01T00:00:09'') =
       Exited \<lparr>returncode = 0, stdout = [], stderr = []\<rparr>"
    "probe (good_attempt ''2024-01-01T00:00:09'') =
       Exited \<lparr>returncode = 0, stdout = ''{}'', stderr = []\<rparr>"
    by (simp_all add: probe_fails_def failed_run_def probe_missing_def missing_program_def
        probe_silent_def silent_run_def good_attempt_def ok_run_def)
  have e: "json_loads reading [] = Inl (PyError ''JSONDecodeError'' ''Expecting value: line 1 column 1 (char 0)'')"
    "json_loads reading ''{}'' = Inr ''{}''"
    "format_duration reading ''{}'' = Inl (PyError ''KeyError'' ([CHR 0x27] @ ''format'' @ [CHR 0x27]))"
    "json_loads (probed NaN) ''{}'' = Inr ''{}''"
    "format_duration (probed NaN) ''{}'' = Inr NaN"
    "lib_str (probed (Finite 120)) = simple_lib_str"
    by (simp_all add: reading_def probed_def)
  have w1: "stored_field (snd (process_video (probed (Finite 120)) 0 video_id0 ''./uploads/abc.mp4'' ''abc.mp4''
       (probe_fails ''2024-01-01T00:00:09'') store0)) video_id0 ''status'' = Some (BStr ''failed'') \<and>
   stored_field (snd (process_video (probed (Finite 120)) 0 video_id0 ''./uploads/abc.mp4'' ''abc.mp4''
       (probe_fails ''2024-01-01T00:00:09'') store0)) video_id0 ''error_message'' =
     Some (BStr ''Failed to extract duration: Command '['ffprobe', '-v', 'quiet', '-print_format', 'json', '-show_format', './uploads/abc.mp4']' returned non-zero exit status 1.'') \<and>
   cmds (snd (process_video (probed (Finite 120)) 0 video_id0 ''./uploads/abc.mp4'' ''abc.mp4''
       (probe_fails ''2024-01-01T00:00:09'') store0)) = [ffprobe_cmd ''./uploads/abc.mp4'']"
    using duration_failure_recorded [OF o [of "Finite 120"] db_store0, where n = 0
        and video_path = "''./uploads/abc.mp4''" and stored_filename = "''abc.mp4''"
        and a = "probe_fails ''2024-01-01T00:00:09''"
        and r = "\<lparr>returncode = 1, stdout = [], stderr = ''Invalid data found''\<rparr>"]
    by (simp add: Let_def p(1) e(6) c ffprobe_error_text)
  have w2: "stored_field (snd (process_video (probed (Finite 120)) 0 video_id0 ''./uploads/abc.mp4'' ''abc.mp4''
       (probe_missing ''2024-01-01T00:00:09'') store0)) video_id0 ''status'' = Some (BStr ''failed'') \<and>
   stored_field (snd (process_video (probed (Finite 120)) 0 video_id0 ''./uploads/abc.mp4'' ''abc.mp4''
       (probe_missing ''2024-01-01T00:00:09'') store0)) video_id0 ''error_message'' =
     Some (BStr (''[Errno 2] No such file or directory: '' @ [CHR 0x27] @ ''ffprobe'' @ [CHR 0x27])) \<and>
   cmds (snd (process_video (probed (Finite 120)) 0 video_id0 ''./uploads/abc.mp4'' ''abc.mp4''
       (probe_missing ''2024-01-01T00:00:09'') store0)) = [ffprobe_cmd ''./uploads/abc.mp4'']"
    using duration_failure_recorded [OF o [of "Finite 120"] db_store0, where n = 0
        and video_path = "''./uploads/abc.mp4''" and stored_filename = "''abc.mp4''"
        and a = "probe_missing ''2024-01-01T00:00:09''" and c = "''FileNotFoundError''"
        and m = "(''[Errno 2] No such file or directory: '' @ [CHR 0x27] @ ''ffprobe'' @ [CHR 0x27])"]
    by (simp add: Let_def p(2) c)
  have w3: "stored_field (snd (process_video reading 0 video_id0 ''./uploads/abc.mp4'' ''abc.mp4''
       (probe_silent ''2024-01-01T00:00:09'') store0)) video_id0 ''status'' = Some (BStr ''failed'') \<and>
   stored_field (snd (process_video reading 0 video_id0 ''./uploads/abc.mp4'' ''abc.mp4''
       (probe_silent ''2024-01-01T00:00:09'') store0)) video_id0 ''error_message'' =
     Some (BStr ''Expecting value: line 1 column 1 (char 0)'') \<and>
   cmds (snd (process_video reading 0 video_id0 ''./uploads/abc.mp4'' ''abc.mp4''
       (probe_silent ''2024-01-01T00:00:09'') store0)) = [ffprobe_cmd ''./uploads/abc.mp4'']"
    using duration_failure_recorded [OF o' db_store0, where n = 0
        and video_path = "''./uploads/abc.mp4''" and stored_filename = "''abc.mp4''"
        and a = "probe_silent ''2024-01-01T00:00:09''"
        and r = "\<lparr>returncode = 0, stdout = [], stderr = []\<rparr>"
        and c = "''JSONDecodeError''" and m = "''Expecting value: line 1 column 1 (char 0)''"]
    by (simp add: Let_def p(3) e(1) c)
  have w4: "stored_field (snd (process_video reading 0 video_id0 ''./uploads/abc.mp4'' ''abc.mp4''
       (good_attempt ''2024-01-01T00:00:09'') store0)) video_id0 ''status'' = Some (BStr ''failed'') \<and>
   stored_field (snd (process_video reading 0 video_id0 ''./uploads/abc.mp4'' ''abc.mp4''
       (good_attempt ''2024-01-01T00:00:09'') store0)) video_id0 ''error_message'' =
     Some (BStr ([CHR 0x27] @ ''format'' @ [CHR 0x27])) \<and>
   cmds (snd (process_video reading 0 video_id0 ''./uploads/abc.mp4'' ''abc.mp4''
       (good_attempt ''2024-01-01T00:00:09'') store0)) = [ffprobe_cmd ''./uploads/abc.mp4'']"
    using duration_failure_recorded [OF o' db_store0, where n = 0
        and video_path = "''./uploads/abc.mp4''" and stored_filename = "''abc.mp4''"
        and a = "good_attempt ''2024-01-01T00:00:09''"
        and r = "\<lparr>returncode = 0, stdout = ''{}'', stderr = []\<rparr>"
        and metadata = "''{}''" and c = "''KeyError''" and m = "([CHR 0x27] @ ''format'' @ [CHR 0x27])"]
    by (simp add: Let_def p(4) e(2,3) c)
  have w5: "stored_field (snd (process_video (probed NaN) 0 video_id0 ''./uploads/abc.mp4'' ''abc.mp4''
       (good_attempt ''2024-01-01T00:00:09'') store0)) video_id0 ''status'' = Some (BStr ''failed'') \<and>
   stored_field (snd (process_video (probed NaN) 0 video_id0 ''./uploads/abc.mp4'' ''abc.mp4''
       (good_attempt ''2024-01-01T00:00:09'') store0)) video_id0 ''error_message'' =
     Some (BStr ''cannot convert float NaN to integer'') \<and>
   cmds (snd (process_video (probed NaN) 0 video_id0 ''./uploads/abc.mp4'' ''abc.mp4''
       (good_attempt ''2024-01-01T00:00:09'') store0)) = [ffprobe_cmd ''./uploads/abc.mp4'']"
    using duration_failure_recorded [OF o [of NaN] db_store0, where n = 0
        and video_path = "''./uploads/abc.mp4''" and stored_filename = "''abc.mp4''"
        and a = "good_attempt ''2024-01-01T00:00:09''"
        and r = "\<lparr>returncode = 0, stdout = ''{}'', stderr = []\<rparr>"
        and metadata = "''{}''" and d = NaN]
    by (simp add: Let_def p(4) e(4,5) c)
  show ?thesis
    using w1 w2 w3 w4 w5 by (simp only: hex24_video_id0 db_store0 p e simp_thms)
qed

text \<open>
  Claim C4. When a step of a run fails, the run issues, after the update to
  \<^verbatim>\<open>processing\<close>, one update that sets the status \<^verbatim>\<open>failed\<close>, the error message and the
  processing time read in that run, and it does so whatever the number of retries, also
  when \<^verbatim>\<open>self.retry\<close> then sends the task again (with a countdown of 60 seconds). If the
  next run succeeds, the record shows \<^verbatim>\<open>failed\<close> with the time of the first run after
  the first run, and \<^verbatim>\<open>done\<close> with the time of the second run after the second.
\<close>

theorem failed_write_before_retry:
  assumes "object_id env video_id = Inr k"
    and "db st k = Some doc"
    and "step_fails env video_path stored_filename a1 e"
  shows "\<exists>st1.
     (\<forall>n. process_video env n video_id video_path stored_filename a1 st =
            (celery_retry n e 60 3, st1)) \<and>
     (\<forall>n<3. celery_retry n e 60 3 = Retry e 60 (Suc n)) \<and>
     writes st1 = writes st @
       [(k, [(''status'', BStr ''processing'')]),
        (k, [(''status'', BStr ''failed''),
             (''error_message'', BStr (exn_str env e)),
             (''processed_time'', BStr (utcnow a1))])] \<and>
     stored_field st1 k ''status'' = Some (BStr ''failed'') \<and>
     stored_field st1 k ''processed_time'' = Some (BStr (utcnow a1)) \<and>
     (\<forall>(a2::attempt) s2 d2 b.
        inspection env video_path (probe a2) = Inr (s2, d2) \<longrightarrow>
        extraction env video_path (thumbnail_path_of env stored_filename) d2 (thumb a2) = Inr b \<longrightarrow>
        (\<exists>st2 res.
           run_job env video_id video_path stored_filename 0 [a1, a2] st =
             [(Retry e 60 1, st1), (Returned res, st2)] \<and>
           stored_field st2 k ''status'' = Some (BStr ''done'') \<and>
           stored_field st2 k ''processed_time'' = Some (BStr (utcnow a2))))"
proof -
  obtain c where c: "process_video env 0 video_id video_path stored_filename a1 st =
     (celery_retry 0 e 60 3,
      update_one k (failed_update (exn_str env e) (utcnow a1))
        ((update_one k processing_update st)\<lparr>cmds := c\<rparr>))"
    using process_video_step_fails [OF assms(1,3)] by blast
  let ?st1 = "update_one k (failed_update (exn_str env e) (utcnow a1))
        ((update_one k processing_update st)\<lparr>cmds := c\<rparr>)"
  have all_n: "\<forall>n. process_video env n video_id video_path stored_filename a1 st =
            (celery_retry n e 60 3, ?st1)"
  proof
    fix n
    obtain c' where c': "process_video env n video_id video_path stored_filename a1 st =
     (celery_retry n e 60 3,
      update_one k (failed_update (exn_str env e) (utcnow a1))
        ((update_one k processing_update st)\<lparr>cmds := c'\<rparr>))"
      using process_video_step_fails [OF assms(1,3)] by blast
    have "snd (process_video env n video_id video_path stored_filename a1 st) =
          snd (process_video env 0 video_id video_path stored_filename a1 st)"
      by (simp add: process_video_def split: prod.split sum.split)
    then show "process_video env n video_id video_path stored_filename a1 st =
            (celery_retry n e 60 3, ?st1)"
      using c c' by simp
  qed
  have retry: "\<forall>n<3. celery_retry n e 60 3 = Retry e 60 (Suc n)"
    by (simp add: celery_retry_cases)
  have w: "writes ?st1 = writes st @
       [(k, [(''status'', BStr ''processing'')]),
        (k, [(''status'', BStr ''failed''),
             (''error_message'', BStr (exn_str env e)),
             (''processed_time'', BStr (utcnow a1))])]"
    using failed_state_fields(4) [OF assms(2)]
    by (simp add: processing_update_def failed_update_def)
  have s: "stored_field ?st1 k ''status'' = Some (BStr ''failed'')"
    using failed_state_fields(1) [OF assms(2)] by simp
  have t: "stored_field ?st1 k ''processed_time'' = Some (BStr (utcnow a1))"
    using failed_state_fields(3) [OF assms(2)] by simp
  have ex: "db ?st1 k \<noteq> None"
    using failed_state_fields(5) [OF assms(2)] by simp
  have second: "\<forall>(a2::attempt) s2 d2 b.
        inspection env video_path (probe a2) = Inr (s2, d2) \<longrightarrow>
        extraction env video_path (thumbnail_path_of env stored_filename) d2 (thumb a2) = Inr b \<longrightarrow>
        (\<exists>st2 res.
           run_job env video_id video_path stored_filename 0 [a1, a2] st =
             [(Retry e 60 1, ?st1), (Returned res, st2)] \<and>
           stored_field st2 k ''status'' = Some (BStr ''done'') \<and>
           stored_field st2 k ''processed_time'' = Some (BStr (utcnow a2)))"
  proof (intro allI impI)
    fix a2 :: attempt and s2 d2 b
    assume i: "inspection env video_path (probe a2) = Inr (s2, d2)"
      and x: "extraction env video_path (thumbnail_path_of env stored_filename) d2 (thumb a2) = Inr b"
    obtain doc1 where doc1: "db ?st1 k = Some doc1" using ex by blast
    have first: "process_video env 0 video_id video_path stored_filename a1 st = (Retry e 60 1, ?st1)"
      using all_n by (simp add: celery_retry_cases)
    let ?res = "[(''video_id'', video_id), (''status'', ''done''), (''duration'', s2),
                (''thumbnail_filename'', thumbnail_filename_of stored_filename)]"
    let ?st2 = "update_one k (done_update s2 (thumbnail_filename_of stored_filename) (utcnow a2))
        ((update_one k processing_update ?st1)\<lparr>cmds := cmds ?st1 @
           [ffprobe_cmd video_path,
            ffmpeg_cmd env video_path (thumbnail_path_of env stored_filename)
              (float_mul d2 float_0_1)]\<rparr>)"
    have snd2: "process_video env 1 video_id video_path stored_filename a2 ?st1 = (Returned ?res, ?st2)"
      using process_video_succeeds [OF assms(1) i x] by simp
    have "run_job env video_id video_path stored_filename 0 [a1, a2] st =
             [(Retry e 60 1, ?st1), (Returned ?res, ?st2)]"
      using run_job_two [OF first snd2] .
    moreover have "stored_field ?st2 k ''status'' = Some (BStr ''done'')"
      using done_state_fields(1) [OF doc1] by simp
    moreover have "stored_field ?st2 k ''processed_time'' = Some (BStr (utcnow a2))"
      using done_state_fields(4) [OF doc1] by simp
    ultimately show "\<exists>st2 res.
           run_job env video_id video_path stored_filename 0 [a1, a2] st =
             [(Retry e 60 1, ?st1), (Returned res, st2)] \<and>
           stored_field st2 k ''status'' = Some (BStr ''done'') \<and>
           stored_field st2 k ''processed_time'' = Some (BStr (utcnow a2))"
      by blast
  qed
  show ?thesis
    using all_n retry w s t second by blast
qed

theorem failed_write_before_retry_witness:
  "hex24_object_id video_id0 = Inr video_id0 \<and>
   db store0 video_id0 = Some pending_doc \<and>
   map fst (run_job (probed (Finite 120)) video_id0 ''./uploads/abc.mp4'' ''abc.mp4'' 0
              [thumb_fails ''2024-01-01T00:00:09'', good_attempt ''2024-01-01T00:01:12''] store0) =
     [Retry (Exception (''Failed to generate thumbnail: '' @
        simple_lib_str (CalledProcessError 1
          (ffmpeg_cmd (probed (Finite 120)) ''./uploads/abc.mp4'' ''./thumbnails/thumb_abc.jpg'' (Finite 12))))) 60 1,
      Returned [(''video_id'', video_id0), (''status'', ''done''), (''duration'', ''00:02:00''),
                (''thumbnail_filename'', ''thumb_abc.jpg'')]] \<and>
   map (\<lambda>(out, st). (stored_field st video_id0 ''status'', stored_field st video_id0 ''processed_time''))
     (run_job (probed (Finite 120)) video_id0 ''./uploads/abc.mp4'' ''abc.mp4'' 0
              [thumb_fails ''2024-01-01T00:00:09'', good_attempt ''2024-01-01T00:01:12''] store0) =
     [(Some (BStr ''failed''), Some (BStr ''2024-01-01T00:00:09'')),
      (Some (BStr ''done''), Some (BStr ''2024-01-01T00:01:12''))]"
proof -
  let ?env = "probed (Finite 120) :: (string, string) pyenv"
  let ?e = "Exception (''Failed to generate thumbnail: '' @
        simple_lib_str (CalledProcessError 1
          (ffmpeg_cmd ?env ''./uploads/abc.mp4'' ''./thumbnails/thumb_abc.jpg'' (Finite 12))))"
  have o: "object_id ?env video_id0 = Inr video_id0"
    by (simp add: hex24_video_id0)
  have i: "inspection ?env ''./uploads/abc.mp4'' (probe (good_attempt ''2024-01-01T00:01:12'')) =
      Inr (''00:02:00'', Finite 120)"
    by (simp add: good_attempt_def inspection_120)
  have x: "extraction ?env ''./uploads/abc.mp4'' (thumbnail_path_of ?env ''abc.mp4'') (Finite 120)
             (thumb (good_attempt ''2024-01-01T00:01:12'')) = Inr True"
    by (simp add: good_attempt_def extraction_ok)
  obtain st1 where
    a: "\<forall>a2 s2 d2 b.
        inspection ?env ''./uploads/abc.mp4'' (probe a2) = Inr (s2, d2) \<longrightarrow>
        extraction ?env ''./uploads/abc.mp4'' (thumbnail_path_of ?env ''abc.mp4'') d2 (thumb a2) = Inr b \<longrightarrow>
        (\<exists>st2 res.
           run_job ?env video_id0 ''./uploads/abc.mp4'' ''abc.mp4'' 0 [thumb_fails ''2024-01-01T00:00:09'', a2] store0 =
             [(Retry ?e 60 1, st1), (Returned res, st2)] \<and>
           stored_field st2 video_id0 ''status'' = Some (BStr ''done'') \<and>
           stored_field st2 video_id0 ''processed_time'' = Some (BStr (utcnow a2)))"
    and s: "stored_field st1 video_id0 ''status'' = Some (BStr ''failed'')"
    and t: "stored_field st1 video_id0 ''processed_time'' = Some (BStr (utcnow (thumb_fails ''2024-01-01T00:00:09'')))"
    using failed_write_before_retry [OF o db_store0 step_fails_thumb [of "''2024-01-01T00:00:09''"]]
    by blast
  obtain st2 res where
    r: "run_job ?env video_id0 ''./uploads/abc.mp4'' ''abc.mp4'' 0
          [thumb_fails ''2024-01-01T00:00:09'', good_attempt ''2024-01-01T00:01:12''] store0 =
             [(Retry ?e 60 1, st1), (Returned res, st2)]"
    and s2: "stored_field st2 video_id0 ''status'' = Some (BStr ''done'')"
    and t2: "stored_field st2 video_id0 ''processed_time'' = Some (BStr (utcnow (good_attempt ''2024-01-01T00:01:12'')))"
    using a i x by blast
  have res: "process_video ?env 1 video_id0 ''./uploads/abc.mp4'' ''abc.mp4''
      (good_attempt ''2024-01-01T00:01:12'') st1 = (Returned res, st2)"
    using r by (simp add: Let_def split: prod.splits task_outcome.splits)
  have "res = [(''video_id'', video_id0), (''status'', ''done''), (''duration'', ''00:02:00''),
                (''thumbnail_filename'', ''thumb_abc.jpg'')]"
    using res process_video_succeeds [OF o i x, of 1 st1] by (simp add: thumbnail_filename_abc)
  then show ?thesis
    using r s t s2 t2 by (simp add: hex24_video_id0 db_store0 thumb_fails_def good_attempt_def)
qed

text \<open>
  Claim C8. After every run of the task on a record that exists, and so after the last
  run of a job, the status of the record is \<^verbatim>\<open>done\<close> or \<^verbatim>\<open>failed\<close>, never \<^verbatim>\<open>pending\<close> or
  \<^verbatim>\<open>processing\<close>; it is \<^verbatim>\<open>done\<close> exactly when the run returned its result.
\<close>

theorem record_done_or_failed:
  assumes "object_id env video_id = Inr k"
    and "db st k = Some doc"
    and "(out, st') \<in> set (run_job env video_id video_path stored_filename n attempts st)"
  shows "(stored_field st' k ''status'' = Some (BStr ''done'') \<or>
          stored_field st' k ''status'' = Some (BStr ''failed'')) \<and>
         ((\<exists>res. out = Returned res) \<longleftrightarrow> stored_field st' k ''status'' = Some (BStr ''done''))"
  using run_job_status [OF assms] by (cases out) auto

theorem record_done_or_failed_witness:
  "hex24_object_id video_id0 = Inr video_id0 \<and>
   db store0 video_id0 = Some pending_doc \<and>
   run_job (probed (Finite 120)) video_id0 ''./uploads/abc.mp4'' ''abc.mp4'' 0
       [probe_fails ''2024-01-01T00:00:09''] store0 =
     [process_video (probed (Finite 120)) 0 video_id0 ''./uploads/abc.mp4'' ''abc.mp4''
       (probe_fails ''2024-01-01T00:00:09'') store0] \<and>
   stored_field (snd (process_video (probed (Finite 120)) 0 video_id0 ''./uploads/abc.mp4'' ''abc.mp4''
       (probe_fails ''2024-01-01T00:00:09'') store0)) video_id0 ''status'' = Some (BStr ''failed'')"
proof -
  let ?env = "probed (Finite 120) :: (string, string) pyenv"
  let ?p = "process_video ?env 0 video_id0 ''./uploads/abc.mp4'' ''abc.mp4''
       (probe_fails ''2024-01-01T00:00:09'') store0"
  have o: "object_id ?env video_id0 = Inr video_id0"
    by (simp add: hex24_video_id0)
  have m: "(fst ?p, snd ?p) \<in> set (run_job ?env video_id0 ''./uploads/abc.mp4'' ''abc.mp4'' 0
       [probe_fails ''2024-01-01T00:00:09''] store0)"
    unfolding run_job_single prod.collapse by (rule list.set_intros(1))
  have i: "inspection ?env ''./uploads/abc.mp4'' (probe (probe_fails ''2024-01-01T00:00:09'')) =
     Inl (Exception (''Failed to extract duration: '' @
        simple_lib_str (CalledProcessError 1 (ffprobe_cmd ''./uploads/abc.mp4''))))"
    by (simp add: probe_fails_def inspection_failed)
  have "\<not> (\<exists>res. fst ?p = Returned res)"
    by (simp add: process_video_inspection_fails [OF o i] celery_retry_cases)
  then show ?thesis
    using record_done_or_failed [OF o db_store0 m]
    by (simp add: hex24_video_id0 db_store0 run_job_single del: run_job.simps)
qed

theorem done_update_fields_counterexample:
  "writes (snd (process_video (probed (Finite 120)) 0 video_id0 ''./uploads/abc.mp4'' ''abc.mp4''
       (good_attempt ''2024-01-01T00:00:09'') store0)) =
     [(video_id0, [(''status'', BStr ''processing'')]),
      (video_id0, [(''status'', BStr ''done''),
                   (''duration'', BStr ''00:02:00''),
                   (''thumbnail_filename'', BStr ''thumb_abc.jpg''),
                   (''processed_time'', BStr ''2024-01-01T00:00:09'')])] \<and>
   stored_field (snd (process_video (probed (Finite 120)) 0 video_id0 ''./uploads/abc.mp4'' ''abc.mp4''
       (good_attempt ''2024-01-01T00:00:09'') store0)) video_id0 ''duration_seconds'' = None"
proof -
  let ?env = "probed (Finite 120) :: (string, string) pyenv"
  have o: "object_id ?env video_id0 = Inr video_id0"
    by (simp add: hex24_video_id0)
  have i: "inspection ?env ''./uploads/abc.mp4'' (probe (good_attempt ''2024-01-01T00:00:09'')) =
      Inr (''00:02:00'', Finite 120)"
    by (simp add: good_attempt_def inspection_120)
  have x: "extraction ?env ''./uploads/abc.mp4'' (thumbnail_path_of ?env ''abc.mp4'') (Finite 120)
             (thumb (good_attempt ''2024-01-01T00:00:09'')) = Inr True"
    by (simp add: good_attempt_def extraction_ok)
  have w: "writes store0 = []" by (simp add: store0_def)
  have pv: "snd (process_video ?env 0 video_id0 ''./uploads/abc.mp4'' ''abc.mp4''
       (good_attempt ''2024-01-01T00:00:09'') store0) =
      update_one video_id0 (done_update ''00:02:00'' ''thumb_abc.jpg'' ''2024-01-01T00:00:09'')
        ((update_one video_id0 processing_update store0)\<lparr>cmds := cmds store0 @
           [ffprobe_cmd ''./uploads/abc.mp4'',
            ffmpeg_cmd ?env ''./uploads/abc.mp4'' (thumbnail_path_of ?env ''abc.mp4'')
              (float_mul (Finite 120) float_0_1)]\<rparr>)"
    by (simp add: process_video_succeeds [OF o i x] thumbnail_filename_abc utcnow_good_attempt)
  have "writes (snd (process_video ?env 0 video_id0 ''./uploads/abc.mp4'' ''abc.mp4''
       (good_attempt ''2024-01-01T00:00:09'') store0)) =
     [(video_id0, [(''status'', BStr ''processing'')]),
      (video_id0, [(''status'', BStr ''done''),
                   (''duration'', BStr ''00:02:00''),
                   (''thumbnail_filename'', BStr ''thumb_abc.jpg''),
                   (''processed_time'', BStr ''2024-01-01T00:00:09'')])]"
    unfolding pv using done_state_fields(5) [OF db_store0]
    by (simp add: w processing_update_def done_update_def)
  moreover have "stored_field (snd (process_video ?env 0 video_id0 ''./uploads/abc.mp4'' ''abc.mp4''
       (good_attempt ''2024-01-01T00:00:09'') store0)) video_id0 ''duration_seconds'' = None"
    unfolding pv
    by (simp add: stored_field_update_one update_one_db db_store0 done_update_def
        processing_update_def pending_doc_def)
  ultimately show ?thesis by simp
qed

text \<open>
  Claim C3, as the code has it. A run returns and writes the status \<^verbatim>\<open>done\<close> only when
  the duration step and then the thumbnail step have succeeded; otherwise no update of
  the run sets \<^verbatim>\<open>done\<close>. On success the run issues, after the update to \<^verbatim>\<open>processing\<close>,
  one update that sets exactly four fields: the status \<^verbatim>\<open>done\<close>, the display string of the
  duration, the thumbnail file name and the processing time. The duration in seconds is
  not among them (the theorem before this one runs the task on a concrete record).
\<close>

theorem done_write_after_both_steps:
  assumes "object_id env video_id = Inr k"
    and "process_video env n video_id video_path stored_filename a st = (out, st')"
  shows "case inspection env video_path (probe a) of
      Inl e \<Rightarrow>
        (\<forall>res. out \<noteq> Returned res) \<and>
        (''status'', BStr ''done'') \<notin> set (concat (map snd (drop (length (writes st)) (writes st'))))
    | Inr (s, d) \<Rightarrow>
       (case extraction env video_path (thumbnail_path_of env stored_filename) d (thumb a) of
          Inl e \<Rightarrow>
            (\<forall>res. out \<noteq> Returned res) \<and>
            (''status'', BStr ''done'') \<notin> set (concat (map snd (drop (length (writes st)) (writes st'))))
        | Inr b \<Rightarrow>
            (\<exists>res. out = Returned res) \<and>
            drop (length (writes st)) (writes st') =
              [(k, [(''status'', BStr ''processing'')]),
               (k, [(''status'', BStr ''done''),
                    (''duration'', BStr s),
                    (''thumbnail_filename'', BStr (thumbnail_filename_of stored_filename)),
                    (''processed_time'', BStr (utcnow a))])])"
proof (cases rule: steps_cases [of env video_path stored_filename a])
  case (fails e)
  obtain c where "process_video env n video_id video_path stored_filename a st =
     (celery_retry n e 60 3,
      update_one k (failed_update (exn_str env e) (utcnow a))
        ((update_one k processing_update st)\<lparr>cmds := c\<rparr>))"
    using process_video_step_fails [OF assms(1) fails] by blast
  then have out: "out = celery_retry n e 60 3"
    and st': "st' = update_one k (failed_update (exn_str env e) (utcnow a))
        ((update_one k processing_update st)\<lparr>cmds := c\<rparr>)"
    using assms(2) by simp_all
  have w: "drop (length (writes st)) (writes st') =
      [(k, processing_update), (k, failed_update (exn_str env e) (utcnow a))]"
    by (simp add: st' update_one_writes)
  have nodone: "(''status'', BStr ''done'') \<notin> set (concat (map snd (drop (length (writes st)) (writes st'))))"
    by (simp add: w processing_update_def failed_update_def)
  have noret: "\<forall>res. out \<noteq> Returned res"
    by (simp add: out celery_retry_cases)
  show ?thesis
    using fails nodone noret
    by (auto simp add: step_fails_def split: sum.splits prod.splits)
next
  case (succeeds s d b)
  have "process_video env n video_id video_path stored_filename a st =
     (Returned [(''video_id'', video_id), (''status'', ''done''), (''duration'', s),
                (''thumbnail_filename'', thumbnail_filename_of stored_filename)],
      update_one k (done_update s (thumbnail_filename_of stored_filename) (utcnow a))
        ((update_one k processing_update st)\<lparr>cmds := cmds st @
           [ffprobe_cmd video_path,
            ffmpeg_cmd env video_path (thumbnail_path_of env stored_filename)
              (float_mul d float_0_1)]\<rparr>))"
    using process_video_succeeds [OF assms(1) succeeds] .
  then have out: "out = Returned [(''video_id'', video_id), (''status'', ''done''), (''duration'', s),
                (''thumbnail_filename'', thumbnail_filename_of stored_filename)]"
    and st': "st' = update_one k (done_update s (thumbnail_filename_of stored_filename) (utcnow a))
        ((update_one k processing_update st)\<lparr>cmds := cmds st @
           [ffprobe_cmd video_path,
            ffmpeg_cmd env video_path (thumbnail_path_of env stored_filename)
              (float_mul d float_0_1)]\<rparr>)"
    using assms(2) by simp_all
  have w: "drop (length (writes st)) (writes st') =
      [(k, processing_update), (k, done_update s (thumbnail_filename_of stored_filename) (utcnow a))]"
    by (simp add: st' update_one_writes)
  show ?thesis
    using succeeds w by (simp add: out processing_update_def done_update_def)
qed

theorem done_write_after_both_steps_witness:
  "hex24_object_id video_id0 = Inr video_id0 \<and>
   inspection (probed (Finite 120)) ''./uploads/abc.mp4'' ok_run = Inr (''00:02:00'', Finite 120) \<and>
   extraction (probed (Finite 120)) ''./uploads/abc.mp4'' ''./thumbnails/thumb_abc.jpg'' (Finite 120) ok_run
     = Inr True \<and>
   drop (length (writes store0))
     (writes (snd (process_video (probed (Finite 120)) 0 video_id0 ''./uploads/abc.mp4'' ''abc.mp4''
       (good_attempt ''2024-01-01T00:00:09'') store0))) =
     [(video_id0, [(''status'', BStr ''processing'')]),
      (video_id0, [(''status'', BStr ''done''),
                   (''duration'', BStr ''00:02:00''),
                   (''thumbnail_filename'', BStr ''thumb_abc.jpg''),
                   (''processed_time'', BStr ''2024-01-01T00:00:09'')])]"
proof -
  let ?env = "probed (Finite 120) :: (string, string) pyenv"
  let ?p = "process_video ?env 0 video_id0 ''./uploads/abc.mp4'' ''abc.mp4''
       (good_attempt ''2024-01-01T00:00:09'') store0"
  have o: "object_id ?env video_id0 = Inr video_id0"
    by (simp add: hex24_video_id0)
  have p: "?p = (fst ?p, snd ?p)" by simp
  have i: "inspection ?env ''./uploads/abc.mp4'' (probe (good_attempt ''2024-01-01T00:00:09'')) =
      Inr (''00:02:00'', Finite 120)"
    by (simp add: good_attempt_def inspection_120)
  have x: "extraction ?env ''./uploads/abc.mp4'' (thumbnail_path_of ?env ''abc.mp4'') (Finite 120)
             (thumb (good_attempt ''2024-01-01T00:00:09'')) = Inr True"
    by (simp add: good_attempt_def extraction_ok)
  show ?thesis
    using done_write_after_both_steps [OF o p]
    by (simp add: i x hex24_video_id0 inspection_120 extraction_ok
        thumbnail_filename_abc utcnow_good_attempt)
qed

theorem missing_record_proceeds_counterexample:
  "db empty_store video_id0 = None \<and>
   fst (process_video (probed (Finite 120)) 0 video_id0 ''./uploads/abc.mp4'' ''abc.mp4''
       (good_attempt ''2024-01-01T00:00:09'') empty_store) =
     Returned [(''video_id'', video_id0), (''status'', ''done''), (''duration'', ''00:02:00''),
               (''thumbnail_filename'', ''thumb_abc.jpg'')] \<and>
   cmds (snd (process_video (probed (Finite 120)) 0 video_id0 ''./uploads/abc.mp4'' ''abc.mp4''
       (good_attempt ''2024-01-01T00:00:09'') empty_store)) =
     [[''ffprobe'', ''-v'', ''quiet'', ''-print_format'', ''json'', ''-show_format'', ''./uploads/abc.mp4''],
      [''ffmpeg'', ''-i'', ''./uploads/abc.mp4'', ''-ss'', ''12.0'',
       ''-vframes'', ''1'', ''-vf'', ''scale=320:240'', ''-q:v'', ''2'', ''-y'',
       ''./thumbnails/thumb_abc.jpg'']] \<and>
   db (snd (process_video (probed (Finite 120)) 0 video_id0 ''./uploads/abc.mp4'' ''abc.mp4''
       (good_attempt ''2024-01-01T00:00:09'') empty_store)) video_id0 = None"
proof -
  let ?env = "probed (Finite 120) :: (string, string) pyenv"
  have o: "object_id ?env video_id0 = Inr video_id0"
    by (simp add: hex24_video_id0)
  have i: "inspection ?env ''./uploads/abc.mp4'' (probe (good_attempt ''2024-01-01T00:00:09'')) =
      Inr (''00:02:00'', Finite 120)"
    by (simp add: good_attempt_def inspection_120)
  have x: "extraction ?env ''./uploads/abc.mp4'' (thumbnail_path_of ?env ''abc.mp4'') (Finite 120)
             (thumb (good_attempt ''2024-01-01T00:00:09'')) = Inr True"
    by (simp add: good_attempt_def extraction_ok)
  have s12: "simple_float_str (Finite 12) = ''12.0''" by code_simp
  have f: "float_str ?env = simple_float_str" by (simp add: probed_def)
  have c0: "cmds empty_store = []" by (simp add: empty_store_def)
  show ?thesis
    by (simp add: process_video_succeeds [OF o i x] thumbnail_filename_abc thumbnail_path_probed
        update_one_cmds update_one_db db_empty_store mul_120 ffprobe_cmd_def ffmpeg_cmd_def s12 f c0)
qed

text \<open>
  Claim C6, as the code has it. A run with a well-formed id first issues the update to
  \<^verbatim>\<open>processing\<close>, which sets the status of the record if there is one, and then runs
  \<^verbatim>\<open>ffprobe\<close>, whether or not the record exists: for a missing record \<^verbatim>\<open>update_one\<close>
  changes nothing and raises nothing, and the collection is the same after the run. Only
  an id that \<^verbatim>\<open>ObjectId\<close> refuses ends the run before any step: the exception leaves the
  task, nothing is written and no command is run.
\<close>

theorem processing_update_then_steps:
  "(\<forall>k. object_id env video_id = Inr k \<longrightarrow>
      take 1 (drop (length (writes st))
        (writes (snd (process_video env n video_id video_path stored_filename a st)))) =
        [(k, [(''status'', BStr ''processing'')])] \<and>
      take 1 (drop (length (cmds st))
        (cmds (snd (process_video env n video_id video_path stored_filename a st)))) =
        [ffprobe_cmd video_path] \<and>
      (db st k = None \<longrightarrow>
         db (snd (process_video env n video_id video_path stored_filename a st)) = db st) \<and>
      (\<forall>doc. db st k = Some doc \<longrightarrow>
         stored_field (update_one k [(''status'', BStr ''processing'')] st) k ''status'' =
           Some (BStr ''processing''))) \<and>
   (\<forall>e. object_id env video_id = Inl e \<longrightarrow>
      process_video env n video_id video_path stored_filename a st = (Raised e, st))"
proof (intro conjI allI impI)
  fix k assume o: "object_id env video_id = Inr k"
  obtain w c where p:
    "snd (process_video env n video_id video_path stored_filename a st) =
       update_one k w ((update_one k processing_update st)\<lparr>cmds := cmds st @ ffprobe_cmd video_path # c\<rparr>)"
  proof (cases "inspection env video_path (probe a)")
    case (Inl e)
    show ?thesis
      using that [of "failed_update (exn_str env e) (utcnow a)" "[]"]
        process_video_inspection_fails [OF o Inl, of n stored_filename st]
      by simp
  next
    case (Inr r)
    obtain s d where r: "r = (s, d)" by (cases r)
    show ?thesis
    proof (cases "extraction env video_path (thumbnail_path_of env stored_filename) d (thumb a)")
      case (Inl e)
      show ?thesis
        using that [of "failed_update (exn_str env e) (utcnow a)"
            "[ffmpeg_cmd env video_path (thumbnail_path_of env stored_filename) (float_mul d float_0_1)]"]
          process_video_extraction_fails [OF o Inr [unfolded r] Inl, of n st]
        by simp
    next
      case b: (Inr b)
      show ?thesis
        using that [of "done_update s (thumbnail_filename_of stored_filename) (utcnow a)"
            "[ffmpeg_cmd env video_path (thumbnail_path_of env stored_filename) (float_mul d float_0_1)]"]
          process_video_succeeds [OF o Inr [unfolded r] b, of n st]
        by simp
    qed
  qed
  show "take 1 (drop (length (writes st))
        (writes (snd (process_video env n video_id video_path stored_filename a st)))) =
        [(k, [(''status'', BStr ''processing'')])]"
    by (simp add: p update_one_writes processing_update_def)
  show "take 1 (drop (length (cmds st))
        (cmds (snd (process_video env n video_id video_path stored_filename a st)))) =
        [ffprobe_cmd video_path]"
    by (simp add: p update_one_cmds)
  show "db (snd (process_video env n video_id video_path stored_filename a st)) = db st"
    if "db st k = None"
    using that by (simp add: p update_one_db)
  show "stored_field (update_one k [(''status'', BStr ''processing'')] st) k ''status'' =
           Some (BStr ''processing'')" if "db st k = Some doc" for doc
    using that by (simp add: stored_field_update_one)
next
  fix e assume "object_id env video_id = Inl e"
  then show "process_video env n video_id video_path stored_filename a st = (Raised e, st)"
    by (rule process_video_invalid)
qed

theorem processing_update_then_steps_witness:
  "hex24_object_id video_id0 = Inr video_id0 \<and>
   db empty_store video_id0 = None \<and>
   take 1 (cmds (snd (process_video (probed (Finite 120)) 0 video_id0 ''./uploads/abc.mp4'' ''abc.mp4''
       (good_attempt ''2024-01-01T00:00:09'') empty_store))) = [ffprobe_cmd ''./uploads/abc.mp4''] \<and>
   db (snd (process_video (probed (Finite 120)) 0 video_id0 ''./uploads/abc.mp4'' ''abc.mp4''
       (good_attempt ''2024-01-01T00:00:09'') empty_store)) = db empty_store \<and>
   hex24_object_id ''not-an-id'' = Inl (InvalidId ''not-an-id'') \<and>
   process_video (probed (Finite 120)) 0 ''not-an-id'' ''./uploads/abc.mp4'' ''abc.mp4''
       (good_attempt ''2024-01-01T00:00:09'') store0 = (Raised (InvalidId ''not-an-id''), store0)"
proof -
  let ?env = "probed (Finite 120) :: (string, string) pyenv"
  have o: "object_id ?env video_id0 = Inr video_id0"
    by (simp add: hex24_video_id0)
  have bad: "object_id ?env ''not-an-id'' = Inl (InvalidId ''not-an-id'')"
    by (simp add: hex24_object_id_def)
  have c0: "cmds empty_store = []" by (simp add: empty_store_def)
  show ?thesis
    using processing_update_then_steps [of ?env video_id0 empty_store 0 "''./uploads/abc.mp4''"
        "''abc.mp4''" "good_attempt ''2024-01-01T00:00:09''"]
      processing_update_then_steps [of ?env "''not-an-id''" store0 0 "''./uploads/abc.mp4''"
        "''abc.mp4''" "good_attempt ''2024-01-01T00:00:09''"] o bad
    by (simp add: hex24_video_id0 db_empty_store c0)
qed

theorem three_attempts_counterexample:
  "map fst (run_job (probed (Finite 120)) video_id0 ''./uploads/abc.mp4'' ''abc.mp4'' 0
     [probe_fails ''2024-01-01T00:00:09'', probe_fails ''2024-01-01T00:01:12'',
      probe_fails ''2024-01-01T00:02:15'', probe_fails ''2024-01-01T00:03:18'',
      probe_fails ''2024-01-01T00:04:21''] store0) =
     [Retry probe_error 60 1, Retry probe_error 60 2, Retry probe_error 60 3, Raised probe_error] \<and>
   length (run_job (probed (Finite 120)) video_id0 ''./uploads/abc.mp4'' ''abc.mp4'' 0
     [probe_fails ''2024-01-01T00:00:09'', probe_fails ''2024-01-01T00:01:12'',
      probe_fails ''2024-01-01T00:02:15'', probe_fails ''2024-01-01T00:03:18'',
      probe_fails ''2024-01-01T00:04:21''] store0) = 4"
proof -
  have o: "object_id (probed (Finite 120)) video_id0 = Inr video_id0"
    by (simp add: hex24_video_id0)
  show ?thesis
    by (simp only: run_job_four_failures [OF o probe_fails_inspection probe_fails_inspection
          probe_fails_inspection probe_fails_inspection]) simp
qed

text \<open>
  Claim C2, as the code has it. When the duration step fails in every run, a job on a
  record that exists is run four times: the first delivery and the three retries that
  \<^verbatim>\<open>max_retries=3\<close> allows. Each of the first three runs ends with \<^verbatim>\<open>Retry\<close> and the
  countdown 60; the fourth run raises its exception and sends no retry, and the record
  is left \<^verbatim>\<open>failed\<close> with the text of that exception.
\<close>

theorem four_runs_then_raised:
  assumes "object_id env video_id = Inr k"
    and "db st k = Some doc"
    and "\<forall>a\<in>set attempts. \<exists>e. inspection env video_path (probe a) = Inl e"
    and "4 \<le> length attempts"
  shows "\<exists>e1 e2 e3 e4 s1 s2 s3 s4.
     run_job env video_id video_path stored_filename 0 attempts st =
       [(Retry e1 60 1, s1), (Retry e2 60 2, s2), (Retry e3 60 3, s3), (Raised e4, s4)] \<and>
     stored_field s4 k ''status'' = Some (BStr ''failed'') \<and>
     stored_field s4 k ''error_message'' = Some (BStr (exn_str env e4))"
proof -
  obtain a1 a2 a3 a4 rest where xs: "attempts = a1 # a2 # a3 # a4 # rest"
    using length_ge_4 [OF assms(4)] by blast
  obtain e1 where e1: "inspection env video_path (probe a1) = Inl e1"
    using assms(3) xs by auto
  obtain e2 where e2: "inspection env video_path (probe a2) = Inl e2"
    using assms(3) xs by auto
  obtain e3 where e3: "inspection env video_path (probe a3) = Inl e3"
    using assms(3) xs by auto
  obtain e4 where e4: "inspection env video_path (probe a4) = Inl e4"
    using assms(3) xs by auto
  let ?s3 = "after_failed_inspection env k video_path e3 a3
         (after_failed_inspection env k video_path e2 a2
           (after_failed_inspection env k video_path e1 a1 st))"
  have "db st k \<noteq> None" using assms(2) by simp
  then have d3: "db ?s3 k \<noteq> None"
    by (intro after_failed_inspection_fields(3))
  show ?thesis
    using run_job_four_failures [OF assms(1) e1 e2 e3 e4, of stored_filename rest st]
      after_failed_inspection_fields(1,2) [OF d3, of env video_path e4 a4]
    unfolding xs by blast
qed

theorem four_runs_then_raised_witness:
  "hex24_object_id video_id0 = Inr video_id0 \<and>
   db store0 video_id0 = Some pending_doc \<and>
   inspection (probed (Finite 120)) ''./uploads/abc.mp4'' failed_run = Inl probe_error \<and>
   (4::nat) \<le> length [probe_fails ''2024-01-01T00:00:09'', probe_fails ''2024-01-01T00:01:12'',
      probe_fails ''2024-01-01T00:02:15'', probe_fails ''2024-01-01T00:03:18''] \<and>
   (\<exists>e1 e2 e3 e4 s1 s2 s3 s4.
     run_job (probed (Finite 120)) video_id0 ''./uploads/abc.mp4'' ''abc.mp4'' 0
       [probe_fails ''2024-01-01T00:00:09'', probe_fails ''2024-01-01T00:01:12'',
        probe_fails ''2024-01-01T00:02:15'', probe_fails ''2024-01-01T00:03:18''] store0 =
       [(Retry e1 60 1, s1), (Retry e2 60 2, s2), (Retry e3 60 3, s3), (Raised e4, s4)] \<and>
     stored_field s4 video_id0 ''status'' = Some (BStr ''failed''))"
proof -
  have o: "object_id (probed (Finite 120)) video_id0 = Inr video_id0"
    by (simp add: hex24_video_id0)
  have f: "inspection (probed (Finite 120)) ''./uploads/abc.mp4'' failed_run = Inl probe_error"
    using probe_fails_inspection [of "Finite 120" "[]"] by (simp add: probe_fails_def)
  have all: "\<forall>a\<in>set [probe_fails ''2024-01-01T00:00:09'', probe_fails ''2024-01-01T00:01:12'',
      probe_fails ''2024-01-01T00:02:15'', probe_fails ''2024-01-01T00:03:18''].
      \<exists>e. inspection (probed (Finite 120)) ''./uploads/abc.mp4'' (probe a) = Inl e"
    by (simp add: probe_fails_inspection)
  have len: "(4::nat) \<le> length [probe_fails ''2024-01-01T00:00:09'', probe_fails ''2024-01-01T00:01:12'',
      probe_fails ''2024-01-01T00:02:15'', probe_fails ''2024-01-01T00:03:18'']"
    by simp
  show ?thesis
    using four_runs_then_raised [OF o db_store0 all len, of "''abc.mp4''"] f
    by (simp only: hex24_video_id0 db_store0 len simp_thms) blast
qed

text \<open>
  Claim C9. \<^verbatim>\<open>get_video_status\<close> and \<^verbatim>\<open>get_video_metadata\<close> leave the collection and
  the task queue as they are. For a record that exists, the first returns the stored
  status, and the second returns the file name, upload time, status and duration of the
  record with a thumbnail URL \<^verbatim>\<open>/thumbnails/<name>\<close> exactly when the record has a
  thumbnail file name that \<^verbatim>\<open>video_doc.get\<close> finds true, that is a string that is not
  empty; the name \<^verbatim>\<open>process_video\<close> writes is never empty.
\<close>

theorem status_and_metadata_are_reads:
  "snd (get_video_status env video_id st) = st \<and>
   snd (get_video_metadata env video_id st) = st \<and>
   (\<forall>k doc s.
      video_id \<noteq> [] \<longrightarrow> object_id env video_id = Inr k \<longrightarrow>
      videos_collection st k = Some doc \<longrightarrow> doc ''status'' = Some (BStr s) \<longrightarrow>
      fst (get_video_status env video_id st) = Inr \<lparr>vs_id = video_id, vs_status = s\<rparr> \<and>
      (\<forall>f u. doc ''filename'' = Some (BStr f) \<longrightarrow> doc ''upload_time'' = Some (BStr u) \<longrightarrow>
         fst (get_video_metadata env video_id st) =
           Inr \<lparr>vm_id = video_id, vm_filename = f, vm_upload_time = u, vm_status = s,
                vm_duration = opt_str_of (doc ''duration''),
                vm_thumbnail_url = thumbnail_url_of doc\<rparr> \<and>
         (\<forall>url. thumbnail_url_of doc = Some url \<longleftrightarrow>
            (\<exists>t. doc ''thumbnail_filename'' = Some (BStr t) \<and> t \<noteq> [] \<and>
                 url = ''/thumbnails/'' @ t)))) \<and>
   thumbnail_filename_of stored_filename \<noteq> []"
  using get_video_status_frame [of env video_id st] get_video_metadata_frame [of env video_id st]
    get_video_status_found [of video_id env _ st] get_video_metadata_found [of video_id env _ st]
  by (simp add: thumbnail_url_of_Some thumbnail_filename_of_def)

theorem status_and_metadata_are_reads_witness:
  "get_video_status (probed (Finite 120)) video_id0 app0 =
     (Inr \<lparr>vs_id = video_id0, vs_status = ''done''\<rparr>, app0) \<and>
   get_video_metadata (probed (Finite 120)) video_id0 app0 =
     (Inr \<lparr>vm_id = video_id0, vm_filename = ''holiday.mp4'',
           vm_upload_time = ''2024-01-01T00:00:00'', vm_status = ''done'',
           vm_duration = Some ''00:02:00'',
           vm_thumbnail_url = Some ''/thumbnails/thumb_abc.jpg''\<rparr>, app0)"
proof -
  let ?env = "probed (Finite 120) :: (string, string) pyenv"
  have o: "object_id ?env video_id0 = Inr video_id0"
    by (simp add: hex24_video_id0)
  have ne: "video_id0 \<noteq> []" by (simp add: video_id0_def)
  have c: "videos_collection app0 video_id0 = Some done_doc" by (simp add: app0_def)
  have u: "thumbnail_url_of done_doc = Some ''/thumbnails/thumb_abc.jpg''"
    by (simp add: thumbnail_url_of_def done_doc_fields)
  show ?thesis
    using status_and_metadata_are_reads [of ?env video_id0 app0 "''abc.mp4''"] o ne c
    by (simp add: prod_eq_iff done_doc_fields u opt_str_of_def)
qed

end
